theory Spec2Isabelle
  imports Main "HOL-Library.Sublist"
begin

section \<open>Data model\<close>

text \<open>
  A path is the list of its segments below the root (\<open>[]\<close> is the root \<open>/\<close>).
  Date strings are produced from the clock by the \<open>toISOString\<close> parameter of the
  environment, and the cryptographic hash is the \<open>sha256\<close> parameter.
\<close>

type_synonym path = "string list"
type_synonym digest = string

text \<open>metadata.js: one entry of \<open>installedComponents\<close>, and the record itself.\<close>

record componentMeta =
  cm_version :: string
  cm_hash :: "digest option"
  cm_modified :: bool
  cm_installDate :: string
  cm_lastUpdate :: "string option"

record metadata =
  md_version :: string
  md_installDate :: string
  md_lastUpdate :: "string option"
  installedComponents :: "string \<rightharpoonup> componentMeta"
  md_service_name :: string
  md_service_status :: string

text \<open>launchagent.js generatePlist: the values the descriptor is generated from.\<close>

datatype exe = ExePath path | ExeName string

record plist =
  pl_label :: string
  pl_program :: exe
  pl_server :: path
  pl_workdir :: path
  pl_logPath :: path
  pl_home :: path

text \<open>
  What \<open>JSON.parse\<close> returns, as far as the program can tell values apart: a falsy value
  (\<open>null\<close>, \<open>false\<close>, \<open>0\<close>, \<open>""\<close>); a truthy value that is no plain object (a number, a
  string, \<open>true\<close>, an array); an object without \<open>installedComponents\<close>, with its \<open>version\<close>
  when that is a string; or a record of metadata.js.
\<close>

datatype json = JFalsy | JValue | JObject "string option" | JRecord metadata

text \<open>
  The bytes of a file. \<open>Json j\<close> is the text \<open>JSON.stringify\<close> writes for \<open>j\<close> (and
  \<open>JSON.parse\<close> reads back as \<open>j\<close>), \<open>PlistDoc p\<close> the descriptor text generated from \<open>p\<close>,
  and \<open>Raw s\<close> any other text; \<open>Raw\<close> text does not parse as JSON.
\<close>

datatype content = Raw string | Json json | PlistDoc plist

datatype node = File content nat | Dir

text \<open>
  The accesses the operating system may refuse: reading, writing, and changing the mode
  (refused to a caller who does not own the file).
\<close>

datatype access = AccRead | AccWrite | AccChmod

text \<open>Error codes of the operating system, as Node's \<open>fs\<close> reports them.\<close>

datatype oserr = ENOENT | EISDIR | ENOTDIR | EEXIST | EACCES | EPERM

text \<open>
  What the health probe's two commands see at one instant: the output of \<open>lsof -ti:8888\<close>
  (empty when nothing listens), the body \<open>curl\<close> receives from \<open>/health\<close> (\<open>None\<close> when the
  request fails), and the time each command takes, in milliseconds.
\<close>

record daemon_state =
  port_pids :: string
  health_body :: "string option"
  lsof_ms :: nat
  curl_ms :: nat

text \<open>The shell commands the program runs through \<open>execSync\<close>.\<close>

datatype shell =
    LaunchctlLoad path
  | LaunchctlUnload path
  | LaunchctlListGrep string
  | Lsof nat
  | CurlHealth nat

text \<open>The exceptions of the program, one constructor per message template.\<close>

datatype error =
    SourceFileNotFound path
  | SourceNotResolved string
  | FailedToCopy path path oserr
  | FailedToCreateDirectory path oserr
  | FailedToRemove path oserr
  | FailedToRemoveDirectory path oserr
  | FailedToReadJSON path "oserr option"
  | FailedToWriteJSON path oserr
  | FailedToCreatePlist oserr
  | FailedToRemovePlist oserr
  | PlistNotFound
  | FailedToLoad string
  | FailedToUnload string
  | OsError oserr
  | TypeError string

text \<open>The \<open>logger.warn\<close> and \<open>logger.error\<close> calls, one constructor per call site.\<close>

datatype log_entry =
    W_backup_failed path oserr
  | W_read_metadata_failed error
  | E_command_failed shell
  | E_not_installed
  | W_customized_detected
  | W_stop_failed error
  | E_update_failed string error
  | W_update_failed string error
  | W_service_config_failed error
  | W_metadata_failed error
  | W_start_timeout
  | W_start_failed error
  | W_not_running
  | W_may_still_be_running
  | E_stop_failed error
  | E_start_timeout
  | E_start_failed error
  | W_remove_plist_failed error
  | E_removal_failed error
  | W_remove_log_failed error
  | E_unknown_command string
  | E_command_faulted string
  | E_already_installed
  | W_port_in_use string
  | W_elevenlabs_fallback
  | E_environment_check_failed
  | W_warnings_nonfatal
  | E_create_directory_failed error
  | E_install_failed string error
  | W_install_skipped string error
  | E_create_launchagent_failed error
  | W_install_start_timeout
  | W_install_start_failed error
  | W_create_metadata_failed error
  | W_elevenlabs_key_missing

text \<open>
  The state the program runs against: the file system (\<open>files\<close>, and the accesses the
  operating system refuses in \<open>denied\<close>), the supervisor's table (\<open>loaded\<close>: it has an entry
  for the service; \<open>launchctl_fault\<close>: the message with which it rejects every command,
  if it does), the daemon as the probe sees it at each instant, the clock in milliseconds,
  and the warnings and errors logged so far.
\<close>

record world =
  files :: "path \<rightharpoonup> node"
  denied :: "access \<Rightarrow> path \<Rightarrow> bool"
  loaded :: bool
  launchctl_fault :: "string option"
  daemon :: "nat \<Rightarrow> daemon_state"
  now :: nat
  logged :: "log_entry list"

text \<open>
  What the program reads from its surroundings and never changes: the home directory,
  the package's root directory (\<open>__dirname/../..\<close> of \<open>lib/core\<close>), the version of
  \<open>package.json\<close>, the hash function and the rendering of dates; and, for the
  environment validation, \<open>os.platform()\<close>, the major number of \<open>process.version\<close> (which
  Node gives as \<open>v<major>.<minor>.<patch>\<close>), the output of \<open>which\<close> for a command (\<open>None\<close>
  when it exits with an error) and the output of \<open>bun --version\<close> (likewise).
\<close>

record env =
  homedir :: path
  setup_root :: path
  pkg_version :: string
  sha256 :: "content \<Rightarrow> digest"
  toISOString :: "nat \<Rightarrow> string"
  os_platform :: string
  node_major :: nat
  which :: "string \<Rightarrow> string option"
  bun_version :: "string option"

definition warn :: "log_entry \<Rightarrow> world \<Rightarrow> world" where
  "warn e w = w\<lparr>logged := logged w @ [e]\<rparr>"

section \<open>Node's fs module\<close>

definition node_at :: "world \<Rightarrow> path \<Rightarrow> node option" where
  "node_at w p = (if p = [] then Some Dir else files w p)"

definition existsSync :: "world \<Rightarrow> path \<Rightarrow> bool" where
  "existsSync w p = (node_at w p \<noteq> None)"

definition isDir :: "world \<Rightarrow> path \<Rightarrow> bool" where
  "isDir w p = (node_at w p = Some Dir)"

definition isFile :: "world \<Rightarrow> path \<Rightarrow> bool" where
  "isFile w p = (case node_at w p of Some (File c m) \<Rightarrow> True | _ \<Rightarrow> False)"

definition dirname :: "path \<Rightarrow> path" where
  "dirname p = butlast p"

definition readFileSync :: "world \<Rightarrow> path \<Rightarrow> oserr + content" where
  "readFileSync w p =
     (case node_at w p of
        None \<Rightarrow> Inl ENOENT
      | Some Dir \<Rightarrow> Inl EISDIR
      | Some (File c m) \<Rightarrow> if denied w AccRead p then Inl EACCES else Inr c)"

text \<open>
  \<open>fs.copyFileSync\<close>: the source must be a readable regular file, the target must not be a
  directory and must be writable, and a new target needs its parent directory. The
  target takes the bytes and the mode of the source. When the mode of an existing target
  may not be changed, the copy fails after the target has been opened, and the target
  is removed. The result is the error, if any, and the state the call leaves.
\<close>

definition copyFileSync :: "world \<Rightarrow> path \<Rightarrow> path \<Rightarrow> oserr option \<times> world" where
  "copyFileSync w s t =
     (case node_at w s of
        None \<Rightarrow> (Some ENOENT, w)
      | Some Dir \<Rightarrow> (Some EISDIR, w)
      | Some (File c m) \<Rightarrow>
          if denied w AccRead s then (Some EACCES, w)
          else (case node_at w t of
                  Some Dir \<Rightarrow> (Some EISDIR, w)
                | Some (File c' m') \<Rightarrow>
                    if denied w AccWrite t then (Some EACCES, w)
                    else if denied w AccChmod t
                      then (Some EPERM, w\<lparr>files := (files w)(t := None)\<rparr>)
                    else (None, w\<lparr>files := (files w)(t \<mapsto> File c m)\<rparr>)
                | None \<Rightarrow>
                    if isDir w (dirname t) then
                      (if denied w AccWrite t then (Some EACCES, w)
                       else (None, w\<lparr>files := (files w)(t \<mapsto> File c m)\<rparr>))
                    else (Some ENOENT, w)))"

definition statSync_mode :: "world \<Rightarrow> path \<Rightarrow> oserr + nat" where
  "statSync_mode w p =
     (case node_at w p of
        None \<Rightarrow> Inl ENOENT
      | Some Dir \<Rightarrow> Inr 493
      | Some (File c m) \<Rightarrow> Inr m)"

definition chmodSync :: "world \<Rightarrow> path \<Rightarrow> nat \<Rightarrow> oserr + world" where
  "chmodSync w p m =
     (case node_at w p of
        None \<Rightarrow> Inl ENOENT
      | Some Dir \<Rightarrow> if denied w AccChmod p then Inl EPERM else Inr w
      | Some (File c m') \<Rightarrow>
          if denied w AccChmod p then Inl EPERM
          else Inr (w\<lparr>files := (files w)(p \<mapsto> File c m)\<rparr>))"

text \<open>
  \<open>fs.mkdirSync(p, { recursive: true })\<close>: every missing ancestor and \<open>p\<close> itself become
  directories; it fails when \<open>p\<close> or an ancestor is a regular file, or when a directory
  that is missing may not be written.
\<close>

definition mkdirSync_recursive :: "world \<Rightarrow> path \<Rightarrow> oserr + world" where
  "mkdirSync_recursive w p =
     (if isFile w p then Inl EEXIST
      else if list_ex (isFile w) (prefixes p) then Inl ENOTDIR
      else if list_ex (\<lambda>q. node_at w q = None \<and> denied w AccWrite q) (prefixes p)
        then Inl EACCES
      else Inr (w\<lparr>files := (\<lambda>q. if prefix q p \<and> q \<noteq> [] then Some Dir else files w q)\<rparr>))"

definition unlinkSync :: "world \<Rightarrow> path \<Rightarrow> oserr + world" where
  "unlinkSync w p =
     (case node_at w p of
        None \<Rightarrow> Inl ENOENT
      | Some Dir \<Rightarrow> Inl EPERM
      | Some (File c m) \<Rightarrow>
          if denied w AccWrite p then Inl EACCES
          else Inr (w\<lparr>files := (files w)(p := None)\<rparr>))"

text \<open>
  \<open>fs.rmSync(p, { recursive: true, force: true })\<close>: \<open>p\<close> and everything below it is gone;
  a refusal anywhere in the tree is the refusal of writing \<open>p\<close>.
\<close>

definition rmSync_recursive :: "world \<Rightarrow> path \<Rightarrow> oserr + world" where
  "rmSync_recursive w p =
     (if denied w AccWrite p then Inl EACCES
      else Inr (w\<lparr>files := (\<lambda>q. if prefix p q then None else files w q)\<rparr>))"

definition writeFileSync :: "world \<Rightarrow> path \<Rightarrow> content \<Rightarrow> oserr + world" where
  "writeFileSync w p c =
     (case node_at w p of
        Some Dir \<Rightarrow> Inl EISDIR
      | Some (File c' m) \<Rightarrow>
          if denied w AccWrite p then Inl EACCES
          else Inr (w\<lparr>files := (files w)(p \<mapsto> File c m)\<rparr>)
      | None \<Rightarrow>
          if isDir w (dirname p) then
            (if denied w AccWrite p then Inl EACCES
             else Inr (w\<lparr>files := (files w)(p \<mapsto> File c 420)\<rparr>))
          else Inl ENOENT)"

text \<open>
  \<open>fs.cpSync(s, t, { recursive: true })\<close>: the tree below \<open>s\<close> is copied below \<open>t\<close>, over
  what is there.
\<close>

definition cpSync_recursive :: "world \<Rightarrow> path \<Rightarrow> path \<Rightarrow> oserr + world" where
  "cpSync_recursive w s t =
     (if node_at w s = None then Inl ENOENT
      else if denied w AccRead s then Inl EACCES
      else if denied w AccWrite t then Inl EACCES
      else if isDir w (dirname t) then
        Inr (w\<lparr>files := (\<lambda>q. if prefix t q
                                then (case files w (s @ drop (length t) q) of
                                        None \<Rightarrow> files w q
                                      | Some n \<Rightarrow> Some n)
                                else files w q)\<rparr>)
      else Inl ENOENT)"

section \<open>lib/utils/file-ops.js\<close>

definition calculateFileHash :: "env \<Rightarrow> world \<Rightarrow> path \<Rightarrow> digest option" where
  "calculateFileHash E w filePath =
     (case readFileSync w filePath of
        Inl e \<Rightarrow> None
      | Inr c \<Rightarrow> Some (sha256 E c))"

definition isFileModified :: "env \<Rightarrow> world \<Rightarrow> path \<Rightarrow> digest option \<Rightarrow> bool" where
  "isFileModified E w filePath originalHash =
     (if existsSync w filePath then calculateFileHash E w filePath \<noteq> originalHash
      else False)"

definition ensureDirectoryExists :: "path \<Rightarrow> bool \<Rightarrow> world \<Rightarrow> (error + bool) \<times> world" where
  "ensureDirectoryExists dirPath dryRun w =
     (if existsSync w dirPath then (Inr False, w)
      else if dryRun then (Inr True, w)
      else (case mkdirSync_recursive w dirPath of
              Inl e \<Rightarrow> (Inl (FailedToCreateDirectory dirPath e), w)
            | Inr w' \<Rightarrow> (Inr True, w')))"

definition copyFile :: "path \<Rightarrow> path \<Rightarrow> bool \<Rightarrow> bool \<Rightarrow> world \<Rightarrow> (error + bool) \<times> world" where
  "copyFile source target dryRun overwrite w =
     (if dryRun then (Inr True, w)
      else if \<not> existsSync w source then (Inl (SourceFileNotFound source), w)
      else if existsSync w target \<and> \<not> overwrite then (Inr False, w)
      else (case ensureDirectoryExists (dirname target) dryRun w of
              (Inl e, w1) \<Rightarrow> (Inl e, w1)
            | (Inr created, w1) \<Rightarrow>
                (case copyFileSync w1 source target of
                   (Some e, w2) \<Rightarrow> (Inl (FailedToCopy source target e), w2)
                 | (None, w2) \<Rightarrow>
                     (case statSync_mode w2 source of
                        Inl e \<Rightarrow> (Inl (FailedToCopy source target e), w2)
                      | Inr m \<Rightarrow>
                          (case chmodSync w2 target m of
                             Inl e \<Rightarrow> (Inl (FailedToCopy source target e), w2)
                           | Inr w3 \<Rightarrow> (Inr True, w3))))))"

definition removeFile :: "path \<Rightarrow> bool \<Rightarrow> world \<Rightarrow> (error + bool) \<times> world" where
  "removeFile filePath dryRun w =
     (if existsSync w filePath then
        (if dryRun then (Inr True, w)
         else (case unlinkSync w filePath of
                 Inl e \<Rightarrow> (Inl (FailedToRemove filePath e), w)
               | Inr w' \<Rightarrow> (Inr True, w')))
      else (Inr False, w))"

definition removeDirectory :: "path \<Rightarrow> bool \<Rightarrow> world \<Rightarrow> (error + bool) \<times> world" where
  "removeDirectory dirPath dryRun w =
     (if existsSync w dirPath then
        (if dryRun then (Inr True, w)
         else (case rmSync_recursive w dirPath of
                 Inl e \<Rightarrow> (Inl (FailedToRemoveDirectory dirPath e), w)
               | Inr w' \<Rightarrow> (Inr True, w')))
      else (Inr False, w))"

text \<open>\<open>`${filePath}${suffix}`\<close> on the path's text: the suffix extends the last segment.\<close>

definition path_append :: "path \<Rightarrow> string \<Rightarrow> path" where
  "path_append p s = (if p = [] then [s] else butlast p @ [last p @ s])"

definition backup_timestamp :: "env \<Rightarrow> world \<Rightarrow> string" where
  "backup_timestamp E w =
     map (\<lambda>c. if c = CHR '':'' \<or> c = CHR ''.'' then CHR ''-'' else c) (toISOString E (now w))"

definition backup_path :: "env \<Rightarrow> world \<Rightarrow> path \<Rightarrow> path" where
  "backup_path E w filePath = path_append filePath (''.backup-'' @ backup_timestamp E w)"

definition backupFile :: "env \<Rightarrow> path \<Rightarrow> bool \<Rightarrow> world \<Rightarrow> (error + path option) \<times> world" where
  "backupFile E filePath dryRun w =
     (if existsSync w filePath then
        (let backupPath = backup_path E w filePath in
         if dryRun then (Inr (Some backupPath), w)
         else (case copyFileSync w filePath backupPath of
                 (None, w') \<Rightarrow> (Inr (Some backupPath), w')
               | (Some e, w') \<Rightarrow> (Inr None, warn (W_backup_failed filePath e) w')))
      else (Inr None, w))"

definition readJSON :: "world \<Rightarrow> path \<Rightarrow> error + json" where
  "readJSON w filePath =
     (case readFileSync w filePath of
        Inl e \<Rightarrow> Inl (FailedToReadJSON filePath (Some e))
      | Inr (Json j) \<Rightarrow> Inr j
      | Inr other \<Rightarrow> Inl (FailedToReadJSON filePath None))"

definition writeJSON :: "path \<Rightarrow> json \<Rightarrow> bool \<Rightarrow> world \<Rightarrow> (error + unit) \<times> world" where
  "writeJSON filePath data dryRun w =
     (if dryRun then (Inr (), w)
      else (case writeFileSync w filePath (Json data) of
              Inl e \<Rightarrow> (Inl (FailedToWriteJSON filePath e), w)
            | Inr w' \<Rightarrow> (Inr (), w')))"

section \<open>lib/core/paths.js\<close>

definition resolveSourcePath :: "env \<Rightarrow> world \<Rightarrow> string \<Rightarrow> error + path" where
  "resolveSourcePath E w relativePath =
     (let packagePath = setup_root E @ [''dist'', relativePath];
          devPath = dirname (setup_root E) @ [relativePath]
      in if existsSync w packagePath then Inr packagePath
         else if existsSync w devPath then Inr devPath
         else Inl (SourceNotResolved relativePath))"

definition getInstallBasePath :: "env \<Rightarrow> path" where
  "getInstallBasePath E = homedir E @ [''.claude'']"

definition getInstallPath :: "env \<Rightarrow> path" where
  "getInstallPath E = getInstallBasePath E @ [''pai-voice-server'']"

definition getLaunchAgentPath :: "env \<Rightarrow> path" where
  "getLaunchAgentPath E = homedir E @ [''Library'', ''LaunchAgents'', ''com.pai.voice-server.plist'']"

definition getLogPath :: "env \<Rightarrow> path" where
  "getLogPath E = homedir E @ [''Library'', ''Logs'', ''pai-voice-server.log'']"

definition getMetadataPath :: "env \<Rightarrow> path" where
  "getMetadataPath E = getInstallPath E @ [''.metadata.json'']"

definition getServerPath :: "env \<Rightarrow> path" where
  "getServerPath E = getInstallPath E @ [''server.ts'']"

definition getVoicesPath :: "env \<Rightarrow> path" where
  "getVoicesPath E = getInstallPath E @ [''voices.json'']"

definition getBunPath :: "env \<Rightarrow> world \<Rightarrow> exe" where
  "getBunPath E w =
     (case filter (existsSync w)
             [homedir E @ [''.bun'', ''bin'', ''bun''],
              [''usr'', ''local'', ''bin'', ''bun''],
              [''opt'', ''homebrew'', ''bin'', ''bun'']] of
        [] \<Rightarrow> ExeName ''bun''
      | bunPath # rest \<Rightarrow> ExePath bunPath)"

section \<open>lib/core/manifest.js\<close>

datatype kind = Required | Optional

record component =
  c_name :: string
  c_type :: kind
  c_source :: string
  c_target :: path
  c_description :: string
  preserveOnUpdate :: bool

definition server_component :: "env \<Rightarrow> component" where
  "server_component E =
     \<lparr>c_name = ''server'', c_type = Required, c_source = ''server.ts'',
      c_target = getServerPath E, c_description = ''Main server implementation'',
      preserveOnUpdate = False\<rparr>"

definition voices_component :: "env \<Rightarrow> component" where
  "voices_component E =
     \<lparr>c_name = ''voices'', c_type = Optional, c_source = ''voices.json'',
      c_target = getVoicesPath E, c_description = ''Voice configuration'',
      preserveOnUpdate = True\<rparr>"

definition service_name :: string where
  "service_name = ''com.pai.voice-server''"

definition service_port :: nat where
  "service_port = 8888"

definition getAllComponents :: "env \<Rightarrow> component list" where
  "getAllComponents E = [server_component E, voices_component E]"

definition getRequiredComponents :: "env \<Rightarrow> component list" where
  "getRequiredComponents E = filter (\<lambda>c. c_type c = Required) (getAllComponents E)"

definition getOptionalComponents :: "env \<Rightarrow> component list" where
  "getOptionalComponents E = filter (\<lambda>c. c_type c = Optional) (getAllComponents E)"

definition getComponent :: "env \<Rightarrow> string \<Rightarrow> component option" where
  "getComponent E n = find (\<lambda>c. c_name c = n) (getAllComponents E)"

section \<open>lib/core/metadata.js\<close>

definition readMetadata :: "env \<Rightarrow> world \<Rightarrow> json option \<times> world" where
  "readMetadata E w =
     (let metadataPath = getMetadataPath E
      in if \<not> existsSync w metadataPath then (None, w)
         else (case readJSON w metadataPath of
                 Inr j \<Rightarrow> (Some j, w)
               | Inl e \<Rightarrow> (None, warn (W_read_metadata_failed e) w)))"

definition updateMetadata :: "env \<Rightarrow> json \<Rightarrow> bool \<Rightarrow> world \<Rightarrow> (error + unit) \<times> world" where
  "updateMetadata E m dryRun w =
     (if \<not> dryRun then writeJSON (getMetadataPath E) m dryRun w else (Inr (), w))"

definition isInstalled :: "env \<Rightarrow> world \<Rightarrow> bool" where
  "isInstalled E w = (existsSync w (getMetadataPath E) \<and> existsSync w (getServerPath E))"

text \<open>\<open>metadata ? metadata.version : null\<close>.\<close>

definition getInstalledVersion :: "env \<Rightarrow> world \<Rightarrow> string option \<times> world" where
  "getInstalledVersion E w =
     (case readMetadata E w of
        (None, w') \<Rightarrow> (None, w')
      | (Some JFalsy, w') \<Rightarrow> (None, w')
      | (Some JValue, w') \<Rightarrow> (None, w')
      | (Some (JObject v), w') \<Rightarrow> (v, w')
      | (Some (JRecord m), w') \<Rightarrow> (Some (md_version m), w'))"

text \<open>The loop of \<open>getCustomizedFiles\<close>; \<open>customized\<close> is the array the loop pushes to.\<close>

fun customized_loop :: "env \<Rightarrow> world \<Rightarrow> metadata \<Rightarrow> component list \<Rightarrow> string list \<Rightarrow> string list" where
  "customized_loop E w m [] customized = customized"
| "customized_loop E w m (c # cs) customized =
     (case installedComponents m (c_name c) of
        None \<Rightarrow> customized_loop E w m cs customized
      | Some componentMeta \<Rightarrow>
          if \<not> existsSync w (c_target c) then customized_loop E w m cs customized
          else if calculateFileHash E w (c_target c) \<noteq> cm_hash componentMeta
            then customized_loop E w m cs (customized @ [c_name c])
          else customized_loop E w m cs customized)"

text \<open>
  On a value without \<open>installedComponents\<close> the loop throws at its first component:
  \<open>metadata.installedComponents[component.name]\<close> reads a property of \<open>undefined\<close>.
\<close>

definition getCustomizedFiles :: "env \<Rightarrow> world \<Rightarrow> (error + string list) \<times> world" where
  "getCustomizedFiles E w =
     (case readMetadata E w of
        (None, w') \<Rightarrow> (Inr [], w')
      | (Some JFalsy, w') \<Rightarrow> (Inr [], w')
      | (Some (JRecord m), w') \<Rightarrow> (Inr (customized_loop E w' m (getAllComponents E) []), w')
      | (Some other, w') \<Rightarrow>
          (case getAllComponents E of
             [] \<Rightarrow> (Inr [], w')
           | c # cs \<Rightarrow> (Inl (TypeError ''installedComponents''), w')))"

definition fresh_metadata :: "env \<Rightarrow> world \<Rightarrow> metadata" where
  "fresh_metadata E w =
     \<lparr>md_version = pkg_version E, md_installDate = toISOString E (now w),
      md_lastUpdate = None, installedComponents = Map.empty,
      md_service_name = service_name, md_service_status = ''installed''\<rparr>"

definition new_component_entry :: "env \<Rightarrow> world \<Rightarrow> digest option \<Rightarrow> componentMeta" where
  "new_component_entry E w h =
     \<lparr>cm_version = pkg_version E, cm_hash = h, cm_modified = False,
      cm_installDate = toISOString E (now w), cm_lastUpdate = None\<rparr>"

text \<open>The loop of \<open>createMetadata\<close> over the components.\<close>

fun create_hashes :: "env \<Rightarrow> world \<Rightarrow> component list \<Rightarrow> metadata \<Rightarrow> metadata" where
  "create_hashes E w [] m = m"
| "create_hashes E w (c # cs) m =
     (if existsSync w (c_target c) then
        create_hashes E w cs
          (m\<lparr>installedComponents := (installedComponents m)
                (c_name c \<mapsto> new_component_entry E w (calculateFileHash E w (c_target c)))\<rparr>)
      else create_hashes E w cs m)"

definition createMetadata :: "env \<Rightarrow> bool \<Rightarrow> world \<Rightarrow> (error + metadata) \<times> world" where
  "createMetadata E dryRun w =
     (let m = create_hashes E w (getAllComponents E) (fresh_metadata E w)
      in if \<not> dryRun then
           (case writeJSON (getMetadataPath E) (JRecord m) dryRun w of
              (Inl e, w') \<Rightarrow> (Inl e, w')
            | (Inr u, w') \<Rightarrow> (Inr m, w'))
         else (Inr m, w))"

text \<open>The loop of \<open>updateAfterInstall\<close> over the components, on a record.\<close>

fun update_hashes :: "env \<Rightarrow> world \<Rightarrow> component list \<Rightarrow> metadata \<Rightarrow> metadata" where
  "update_hashes E w [] m = m"
| "update_hashes E w (c # cs) m =
     (if existsSync w (c_target c) then
        (let h = calculateFileHash E w (c_target c)
         in case installedComponents m (c_name c) of
              None \<Rightarrow>
                update_hashes E w cs
                  (m\<lparr>installedComponents := (installedComponents m)
                        (c_name c \<mapsto> new_component_entry E w h)\<rparr>)
            | Some old \<Rightarrow>
                update_hashes E w cs
                  (m\<lparr>installedComponents := (installedComponents m)
                        (c_name c \<mapsto> old\<lparr>cm_version := pkg_version E, cm_hash := h,
                                           cm_modified := False,
                                           cm_lastUpdate := Some (toISOString E (now w))\<rparr>)\<rparr>))
      else update_hashes E w cs m)"

text \<open>
  The same loop on whatever was read. On a value without \<open>installedComponents\<close> it throws
  at the first component whose target exists, and does nothing when there is none.
\<close>

definition update_component_hashes :: "env \<Rightarrow> world \<Rightarrow> json \<Rightarrow> error + json" where
  "update_component_hashes E w j =
     (case j of
        JRecord m \<Rightarrow> Inr (JRecord (update_hashes E w (getAllComponents E) m))
      | other \<Rightarrow>
          if list_ex (\<lambda>c. existsSync w (c_target c)) (getAllComponents E)
          then Inl (TypeError ''installedComponents'')
          else Inr other)"

text \<open>
  \<open>updateAfterInstall\<close>. On an update the value read is kept and gets the new version and
  the date; that assignment is lost on a value that is no plain object.
\<close>

definition updateAfterInstall :: "env \<Rightarrow> bool \<Rightarrow> bool \<Rightarrow> world \<Rightarrow> (error + json) \<times> world" where
  "updateAfterInstall E dryRun isUpdate w =
     (case readMetadata E w of
        (found, w1) \<Rightarrow>
          (let m0 = (case found of
                       None \<Rightarrow> JRecord (fresh_metadata E w1)
                     | Some JFalsy \<Rightarrow> JRecord (fresh_metadata E w1)
                     | Some JValue \<Rightarrow> if isUpdate then JValue else JRecord (fresh_metadata E w1)
                     | Some (JObject v) \<Rightarrow>
                         if isUpdate then JObject (Some (pkg_version E))
                         else JRecord (fresh_metadata E w1)
                     | Some (JRecord old) \<Rightarrow>
                         if isUpdate
                         then JRecord (old\<lparr>md_version := pkg_version E,
                                  md_lastUpdate := Some (toISOString E (now w1))\<rparr>)
                         else JRecord (fresh_metadata E w1))
           in case update_component_hashes E w1 m0 of
                Inl e \<Rightarrow> (Inl e, w1)
              | Inr m \<Rightarrow>
                  if \<not> dryRun then
                    (case updateMetadata E m dryRun w1 of
                       (Inl e, w2) \<Rightarrow> (Inl e, w2)
                     | (Inr u, w2) \<Rightarrow> (Inr m, w2))
                  else (Inr m, w1)))"

section \<open>lib/utils/exec.js\<close>

text \<open>
  The commands themselves are not part of the program. The supervisor is a black box
  with one table entry: a command it rejects fails with its message and changes nothing;
  loading a loaded service and unloading an unknown one fail with the supervisor's
  texts for the two conditions. \<open>lsof\<close> and \<open>curl -s -f -m 2\<close> read the daemon at the
  instant they start and take the time it says, \<open>curl\<close> at most its two seconds.
\<close>

definition execSync :: "shell \<Rightarrow> world \<Rightarrow> (string + string) \<times> world" where
  "execSync cmd w =
     (case cmd of
        LaunchctlLoad p \<Rightarrow>
          (case launchctl_fault w of
             Some msg \<Rightarrow> (Inl msg, w)
           | None \<Rightarrow>
               if loaded w then (Inl ''service already loaded'', w)
               else (Inr [], w\<lparr>loaded := True\<rparr>))
      | LaunchctlUnload p \<Rightarrow>
          (case launchctl_fault w of
             Some msg \<Rightarrow> (Inl msg, w)
           | None \<Rightarrow>
               if loaded w then (Inr [], w\<lparr>loaded := False\<rparr>)
               else (Inl ''Could not find specified service'', w))
      | LaunchctlListGrep n \<Rightarrow>
          (case launchctl_fault w of
             Some msg \<Rightarrow> (Inl msg, w)
           | None \<Rightarrow> if loaded w then (Inr (''-  0  '' @ n), w) else (Inl ''exit status 1'', w))
      | Lsof port \<Rightarrow>
          (let d = daemon w (now w); w' = w\<lparr>now := now w + lsof_ms d\<rparr>
           in if port_pids d = [] then (Inl ''exit status 1'', w') else (Inr (port_pids d), w'))
      | CurlHealth port \<Rightarrow>
          (let d = daemon w (now w)
           in if 2000 < curl_ms d then (Inl ''exit status 28'', w\<lparr>now := now w + 2000\<rparr>)
              else (case health_body d of
                      None \<Rightarrow> (Inl ''exit status 22'', w\<lparr>now := now w + curl_ms d\<rparr>)
                    | Some body \<Rightarrow> (Inr body, w\<lparr>now := now w + curl_ms d\<rparr>))))"

record exec_result =
  ex_success :: bool
  ex_stdout :: string
  ex_stderr :: string
  ex_error :: "string option"

text \<open>\<open>exec\<close>: \<open>Inl msg\<close> is the error it rethrows, with the message of \<open>execSync\<close>'s.\<close>

definition exec :: "shell \<Rightarrow> bool \<Rightarrow> bool \<Rightarrow> world \<Rightarrow> (string + exec_result) \<times> world" where
  "exec command dryRun ignoreError w =
     (if dryRun then (Inr \<lparr>ex_success = True, ex_stdout = [], ex_stderr = [], ex_error = None\<rparr>, w)
      else (case execSync command w of
              (Inr out, w') \<Rightarrow>
                (Inr \<lparr>ex_success = True, ex_stdout = out, ex_stderr = [], ex_error = None\<rparr>, w')
            | (Inl msg, w') \<Rightarrow>
                if \<not> ignoreError then (Inl msg, warn (E_command_failed command) w')
                else (Inr \<lparr>ex_success = False, ex_stdout = [], ex_stderr = [],
                           ex_error = Some msg\<rparr>, w')))"

definition is_space :: "char \<Rightarrow> bool" where
  "is_space c = (c \<in> set [CHR '' '', CHR 0x09, CHR 0x0A, CHR 0x0B, CHR 0x0C, CHR 0x0D])"

definition trim :: "string \<Rightarrow> string" where
  "trim s = rev (dropWhile is_space (rev (dropWhile is_space s)))"

definition str_includes :: "string \<Rightarrow> string \<Rightarrow> bool" where
  "str_includes s sub = list_ex (prefix sub) (suffixes s)"

definition execOutput :: "shell \<Rightarrow> bool \<Rightarrow> bool \<Rightarrow> world \<Rightarrow> (string + string) \<times> world" where
  "execOutput command dryRun ignoreError w =
     (if dryRun then (Inr [], w)
      else (case execSync command w of
              (Inr out, w') \<Rightarrow> (Inr (trim out), w')
            | (Inl msg, w') \<Rightarrow> if \<not> ignoreError then (Inl msg, w') else (Inr [], w')))"

definition sleep :: "nat \<Rightarrow> world \<Rightarrow> world" where
  "sleep ms w = w\<lparr>now := now w + ms\<rparr>"

section \<open>lib/core/launchagent.js\<close>

definition generatePlist :: "env \<Rightarrow> world \<Rightarrow> plist" where
  "generatePlist E w =
     \<lparr>pl_label = service_name, pl_program = getBunPath E w, pl_server = getServerPath E,
      pl_workdir = getInstallPath E, pl_logPath = getLogPath E, pl_home = homedir E\<rparr>"

definition createPlist :: "env \<Rightarrow> bool \<Rightarrow> world \<Rightarrow> (error + bool) \<times> world" where
  "createPlist E dryRun w =
     (let plistPath = getLaunchAgentPath E
      in if dryRun then (Inr True, w)
         else (let launchAgentsDir = dirname plistPath
               in case (if \<not> existsSync w launchAgentsDir
                        then mkdirSync_recursive w launchAgentsDir else Inr w) of
                    Inl e \<Rightarrow> (Inl (FailedToCreatePlist e), w)
                  | Inr w1 \<Rightarrow>
                      (case writeFileSync w1 plistPath (PlistDoc (generatePlist E w1)) of
                         Inl e \<Rightarrow> (Inl (FailedToCreatePlist e), w1)
                       | Inr w2 \<Rightarrow> (Inr True, w2))))"

definition removePlist :: "env \<Rightarrow> bool \<Rightarrow> world \<Rightarrow> (error + bool) \<times> world" where
  "removePlist E dryRun w =
     (let plistPath = getLaunchAgentPath E
      in if \<not> existsSync w plistPath then (Inr False, w)
         else if dryRun then (Inr True, w)
         else (case unlinkSync w plistPath of
                 Inl e \<Rightarrow> (Inl (FailedToRemovePlist e), w)
               | Inr w' \<Rightarrow> (Inr True, w')))"

definition load :: "env \<Rightarrow> bool \<Rightarrow> world \<Rightarrow> (error + bool) \<times> world" where
  "load E dryRun w =
     (let plistPath = getLaunchAgentPath E
      in if \<not> existsSync w plistPath then (Inl PlistNotFound, w)
         else if dryRun then (Inr True, w)
         else (case exec (LaunchctlLoad plistPath) dryRun True w of
                 (Inr r, w') \<Rightarrow> (Inr True, w')
               | (Inl msg, w') \<Rightarrow>
                   if str_includes msg ''already loaded'' then (Inr True, w')
                   else (Inl (FailedToLoad msg), w')))"

definition unload :: "env \<Rightarrow> bool \<Rightarrow> world \<Rightarrow> (error + bool) \<times> world" where
  "unload E dryRun w =
     (let plistPath = getLaunchAgentPath E
      in if \<not> existsSync w plistPath then (Inr False, w)
         else if dryRun then (Inr True, w)
         else (case exec (LaunchctlUnload plistPath) dryRun True w of
                 (Inr r, w') \<Rightarrow> (Inr True, w')
               | (Inl msg, w') \<Rightarrow>
                   if str_includes msg ''Could not find'' then (Inr True, w')
                   else (Inl (FailedToUnload msg), w')))"

definition isLoaded :: "env \<Rightarrow> world \<Rightarrow> bool \<times> world" where
  "isLoaded E w =
     (case execOutput (LaunchctlListGrep service_name) False True w of
        (Inr result, w') \<Rightarrow> (0 < length (trim result), w')
      | (Inl msg, w') \<Rightarrow> (False, w'))"

definition isRunning :: "env \<Rightarrow> world \<Rightarrow> bool \<times> world" where
  "isRunning E w =
     (case execOutput (Lsof service_port) False True w of
        (Inl msg, w1) \<Rightarrow> (False, w1)
      | (Inr portCheck, w1) \<Rightarrow>
          if portCheck = [] \<or> trim portCheck = [] then (False, w1)
          else (case execOutput (CurlHealth service_port) False True w1 of
                  (Inl msg, w2) \<Rightarrow> (False, w2)
                | (Inr healthCheck, w2) \<Rightarrow>
                    (healthCheck \<noteq> [] \<and> str_includes healthCheck ''healthy'', w2)))"

record service_status =
  st_loaded :: bool
  st_running :: bool
  st_plistExists :: bool

definition getStatus :: "env \<Rightarrow> world \<Rightarrow> service_status \<times> world" where
  "getStatus E w =
     (case isLoaded E w of
        (l, w1) \<Rightarrow>
          (case isRunning E w1 of
             (r, w2) \<Rightarrow>
               (\<lparr>st_loaded = l, st_running = r,
                 st_plistExists = existsSync w2 (getLaunchAgentPath E)\<rparr>, w2)))"

lemma execOutput_now_mono: "now w \<le> now (snd (execOutput c d i w))"
  by (cases c) (auto simp: execOutput_def execSync_def Let_def split: option.splits)

lemma isRunning_now_mono: "now w \<le> now (snd (isRunning E w))"
proof -
  have a: "now w \<le> now (snd (execOutput (Lsof service_port) False True w))"
    by (rule execOutput_now_mono)
  have b: "\<And>w1. now w1 \<le> now (snd (execOutput (CurlHealth service_port) False True w1))"
    by (rule execOutput_now_mono)
  show ?thesis
    unfolding isRunning_def
    using a b [of "snd (execOutput (Lsof service_port) False True w)"]
    by (auto split: prod.splits sum.splits)
qed

text \<open>
  \<open>waitForStart\<close>: \<open>startTime\<close> is the first reading of \<open>Date.now()\<close>, \<open>timeoutMs\<close> the
  timeout in milliseconds; the loop reads the clock again each time round.
\<close>

function waitForStart_loop :: "env \<Rightarrow> nat \<Rightarrow> int \<Rightarrow> world \<Rightarrow> bool \<times> world" where
  "waitForStart_loop E startTime timeoutMs w =
     (if int (now w) - int startTime < timeoutMs then
        (case isRunning E w of
           (running, w1) \<Rightarrow>
             if running then (True, w1)
             else waitForStart_loop E startTime timeoutMs (sleep 1000 w1))
      else (False, w))"
  by pat_completeness auto
termination
  apply (relation "measure (\<lambda>(E, startTime, timeoutMs, w). nat (timeoutMs + int startTime - int (now w)))")
   apply simp
  subgoal for E startTime timeoutMs w x y
    using isRunning_now_mono [of w E] by (cases "isRunning E w") (simp add: sleep_def)
  done

definition waitForStart :: "env \<Rightarrow> int \<Rightarrow> world \<Rightarrow> bool \<times> world" where
  "waitForStart E timeout w = waitForStart_loop E (now w) (timeout * 1000) w"

section \<open>lib/core/environment.js\<close>

text \<open>The messages of the checks that make the validation fail.\<close>

datatype env_error =
    UnsupportedPlatform string
  | NodeTooOld nat
  | BunNotInstalled
  | BunVersionFailed
  | LaunchctlNotFound
  | NoWritePermission oserr

datatype env_warning = PortInUse string | ElevenLabsNotConfigured string

text \<open>The manifest's \<open>requirements\<close>: \<open>platform\<close>, and the major number of \<open>minNodeVersion\<close>.\<close>

definition required_platform :: string where
  "required_platform = ''darwin''"

definition min_node_major :: nat where
  "min_node_major = 18"

text \<open>Each check returns its error, \<open>None\<close> when it is valid.\<close>

definition validatePlatform :: "env \<Rightarrow> env_error option" where
  "validatePlatform E =
     (if os_platform E \<noteq> required_platform then Some (UnsupportedPlatform (os_platform E))
      else None)"

definition validateNodeVersion :: "env \<Rightarrow> env_error option" where
  "validateNodeVersion E =
     (if node_major E < min_node_major then Some (NodeTooOld (node_major E)) else None)"

definition commandExists :: "env \<Rightarrow> string \<Rightarrow> bool" where
  "commandExists E command =
     (case which E command of
        None \<Rightarrow> False
      | Some result \<Rightarrow> 0 < length (trim result))"

definition validateBun :: "env \<Rightarrow> env_error option" where
  "validateBun E =
     (if \<not> commandExists E ''bun'' then Some BunNotInstalled
      else (case bun_version E of
              None \<Rightarrow> Some BunVersionFailed
            | Some version \<Rightarrow> None))"

definition validateLaunchctl :: "env \<Rightarrow> env_error option" where
  "validateLaunchctl E =
     (if \<not> commandExists E ''launchctl'' then Some LaunchctlNotFound else None)"

text \<open>\<open>s.split(c)\<close>.\<close>

fun split_on :: "char \<Rightarrow> string \<Rightarrow> string list" where
  "split_on c [] = [[]]"
| "split_on c (x # xs) =
     (if x = c then [] # split_on c xs
      else (case split_on c xs of
              [] \<Rightarrow> [[x]]
            | y # ys \<Rightarrow> (x # y) # ys))"

text \<open>
  \<open>checkPort\<close>: the first process that holds the port, \<open>None\<close> when the port is available.
  The name of that process (\<open>ps\<close>) only feeds the message and is left out.
\<close>

definition checkPort :: "nat \<Rightarrow> world \<Rightarrow> string option \<times> world" where
  "checkPort port w =
     (case execOutput (Lsof port) False True w of
        (Inl msg, w') \<Rightarrow> (None, w')
      | (Inr result, w') \<Rightarrow>
          if result = [] \<or> trim result = [] then (None, w')
          else (Some (hd (split_on (CHR 0x0A) (trim result))), w'))"

text \<open>
  The loop of \<open>checkElevenLabsConfig\<close> over the lines of \<open>~/.env\<close>; the value of a line is
  what stands between its first and its second \<open>=\<close>.
\<close>

fun env_lines :: "string list \<Rightarrow> string option \<Rightarrow> string option \<Rightarrow> string option \<times> string option"
  where
  "env_lines [] apiKey voiceId = (apiKey, voiceId)"
| "env_lines (line # lines) apiKey voiceId =
     (let trimmed = trim line;
          apiKey' = (if prefix ''ELEVENLABS_API_KEY='' trimmed
                     then Some (trim (split_on (CHR ''='') trimmed ! 1)) else apiKey);
          voiceId' = (if prefix ''ELEVENLABS_VOICE_ID='' trimmed
                      then Some (trim (split_on (CHR ''='') trimmed ! 1)) else voiceId)
      in env_lines lines apiKey' voiceId')"

text \<open>
  \<open>checkElevenLabsConfig\<close>: the voice id when the key is configured, or the warning. The
  text of a record or of a descriptor has no line that starts with one of the two names.
\<close>

definition checkElevenLabsConfig :: "env \<Rightarrow> world \<Rightarrow> env_warning + string" where
  "checkElevenLabsConfig E w =
     (let envPath = homedir E @ [''.env'']
      in if \<not> existsSync w envPath then Inl (ElevenLabsNotConfigured ''No ~/.env file found'')
         else (case readFileSync w envPath of
                 Inl e \<Rightarrow> Inl (ElevenLabsNotConfigured ''Failed to read ~/.env'')
               | Inr envContent \<Rightarrow>
                   (case env_lines (case envContent of
                                      Raw text \<Rightarrow> split_on (CHR 0x0A) text
                                    | other \<Rightarrow> []) None None of
                      (apiKey, voiceId) \<Rightarrow>
                        if apiKey = None \<or> apiKey = Some [] \<or> apiKey = Some ''your_api_key_here''
                        then Inl (ElevenLabsNotConfigured
                                    ''ELEVENLABS_API_KEY not configured in ~/.env'')
                        else Inr (case voiceId of
                                    None \<Rightarrow> ''default''
                                  | Some v \<Rightarrow> if v = [] then ''default'' else v))))"

text \<open>
  \<open>checkDirectoryPermissions\<close>, on the expanded path: it creates the directory when it is
  missing, then writes a test file into it and removes it again. The result is the
  error that made it report the directory as not writable, if any. No option reaches
  this function: it does the same in a dry run.
\<close>

definition checkDirectoryPermissions :: "path \<Rightarrow> world \<Rightarrow> oserr option \<times> world" where
  "checkDirectoryPermissions expandedPath w =
     (case (if \<not> existsSync w expandedPath then mkdirSync_recursive w expandedPath
            else Inr w) of
        Inl e \<Rightarrow> (Some e, w)
      | Inr w1 \<Rightarrow>
          (let testFile = expandedPath @ [''.write-test'']
           in case writeFileSync w1 testFile (Raw ''test'') of
                Inl e \<Rightarrow> (Some e, w1)
              | Inr w2 \<Rightarrow>
                  (case unlinkSync w2 testFile of
                     Inl e \<Rightarrow> (Some e, w2)
                   | Inr w3 \<Rightarrow> (None, w3))))"

record env_check =
  chk_platform :: "env_error option"
  chk_nodeVersion :: "env_error option"
  chk_bun :: "env_error option"
  chk_launchctl :: "env_error option"
  chk_port :: "string option"
  chk_elevenLabs :: "env_warning + string"
  chk_permissions :: "oserr option"
  ec_errors :: "env_error list"
  ec_warnings :: "env_warning list"
  ec_valid :: bool

definition validateEnvironment :: "env \<Rightarrow> world \<Rightarrow> env_check \<times> world" where
  "validateEnvironment E w =
     (let platform = validatePlatform E;
          nodeVersion = validateNodeVersion E;
          bun = validateBun E;
          launchctl = validateLaunchctl E
      in case checkPort 8888 w of
           (port, w1) \<Rightarrow>
             (let elevenLabs = checkElevenLabsConfig E w1
              in case checkDirectoryPermissions (getInstallBasePath E) w1 of
                   (permissions, w2) \<Rightarrow>
                     (let errors =
                            (case platform of None \<Rightarrow> [] | Some e \<Rightarrow> [e])
                            @ (case nodeVersion of None \<Rightarrow> [] | Some e \<Rightarrow> [e])
                            @ (case bun of None \<Rightarrow> [] | Some e \<Rightarrow> [e])
                            @ (case launchctl of None \<Rightarrow> [] | Some e \<Rightarrow> [e])
                            @ (case permissions of
                                 None \<Rightarrow> []
                               | Some e \<Rightarrow> [NoWritePermission e]);
                          warnings =
                            (case port of None \<Rightarrow> [] | Some pid \<Rightarrow> [PortInUse pid])
                            @ (case elevenLabs of Inl e \<Rightarrow> [e] | Inr voiceId \<Rightarrow> [])
                      in (\<lparr>chk_platform = platform, chk_nodeVersion = nodeVersion,
                           chk_bun = bun, chk_launchctl = launchctl, chk_port = port,
                           chk_elevenLabs = elevenLabs, chk_permissions = permissions,
                           ec_errors = errors, ec_warnings = warnings,
                           ec_valid = (errors = [])\<rparr>, w2))))"

text \<open>The warnings and errors \<open>displayEnvironmentCheck\<close> logs.\<close>

definition displayEnvironmentCheck :: "env_check \<Rightarrow> world \<Rightarrow> world" where
  "displayEnvironmentCheck result w =
     (let w1 = (case chk_port result of
                  None \<Rightarrow> w
                | Some pid \<Rightarrow> warn (W_port_in_use pid) w);
          w2 = (case chk_elevenLabs result of
                  Inr voiceId \<Rightarrow> w1
                | Inl e \<Rightarrow> warn W_elevenlabs_fallback w1);
          w3 = (if 0 < length (ec_errors result) then warn E_environment_check_failed w2
                else w2)
      in if 0 < length (ec_warnings result) \<and> length (ec_errors result) = 0
         then warn W_warnings_nonfatal w3 else w3)"

section \<open>lib/commands\<close>

record options =
  opt_dryRun :: bool
  opt_yes :: bool
  opt_verbose :: bool
  opt_force :: bool
  opt_preserveLogs :: bool
  opt_backup :: bool

subsection \<open>updater.js\<close>

datatype update_result =
    U_not_installed
  | U_already_up_to_date
  | U_update_failed string error
  | U_updated "string option" string "string list" "string list" bool

fun update_success :: "update_result \<Rightarrow> bool" where
  "update_success U_not_installed = False"
| "update_success U_already_up_to_date = True"
| "update_success (U_update_failed n e) = False"
| "update_success (U_updated fromVersion toVersion updated preserved d) = True"

text \<open>
  The body of the \<open>try\<close> in the component loop, after the test that preserves a
  customized file: the backup, then the copy over the target.
\<close>

definition update_one :: "env \<Rightarrow> bool \<Rightarrow> bool \<Rightarrow> component \<Rightarrow> world \<Rightarrow> (error + bool) \<times> world" where
  "update_one E dryRun isCustomized c w =
     (case (if isCustomized \<and> \<not> dryRun then backupFile E (c_target c) dryRun w
            else (Inr None, w)) of
        (Inl e, w1) \<Rightarrow> (Inl e, w1)
      | (Inr backupPath, w1) \<Rightarrow>
          (case resolveSourcePath E w1 (c_source c) of
             Inl e \<Rightarrow> (Inl e, w1)
           | Inr sourcePath \<Rightarrow> copyFile sourcePath (c_target c) dryRun True w1))"

text \<open>
  The component loop; \<open>Inl\<close> is the early return for a required component that failed.
\<close>

fun update_components ::
  "env \<Rightarrow> bool \<Rightarrow> string list \<Rightarrow> component list \<Rightarrow> string list \<Rightarrow> string list \<Rightarrow> world
   \<Rightarrow> ((string \<times> error) + (string list \<times> string list)) \<times> world" where
  "update_components E dryRun customized [] updated preserved w = (Inr (updated, preserved), w)"
| "update_components E dryRun customized (c # cs) updated preserved w =
     (let isCustomized = (c_name c \<in> set customized)
      in if isCustomized \<and> preserveOnUpdate c
         then update_components E dryRun customized cs updated (preserved @ [c_name c]) w
         else (case update_one E dryRun isCustomized c w of
                 (Inr copied, w') \<Rightarrow>
                   update_components E dryRun customized cs (updated @ [c_name c]) preserved w'
               | (Inl e, w') \<Rightarrow>
                   if c_type c = Required
                   then (Inl (c_name c, e), warn (E_update_failed (c_name c) e) w')
                   else update_components E dryRun customized cs updated preserved
                          (warn (W_update_failed (c_name c) e) w')))"

definition stop_service :: "env \<Rightarrow> bool \<Rightarrow> world \<Rightarrow> world" where
  "stop_service E dryRun w =
     (case unload E dryRun w of
        (Inr r, w') \<Rightarrow> w'
      | (Inl e, w') \<Rightarrow> warn (W_stop_failed e) w')"

definition update_plist :: "env \<Rightarrow> bool \<Rightarrow> world \<Rightarrow> world" where
  "update_plist E dryRun w =
     (case createPlist E dryRun w of
        (Inr r, w') \<Rightarrow> w'
      | (Inl e, w') \<Rightarrow> warn (W_service_config_failed e) w')"

definition update_record :: "env \<Rightarrow> bool \<Rightarrow> world \<Rightarrow> world" where
  "update_record E dryRun w =
     (case updateAfterInstall E dryRun True w of
        (Inr m, w') \<Rightarrow> w'
      | (Inl e, w') \<Rightarrow> warn (W_metadata_failed e) w')"

definition restart_service :: "env \<Rightarrow> bool \<Rightarrow> world \<Rightarrow> world" where
  "restart_service E dryRun w =
     (case load E dryRun w of
        (Inl e, w') \<Rightarrow> warn (W_start_failed e) w'
      | (Inr r, w') \<Rightarrow>
          if \<not> dryRun then
            (case waitForStart E 10 w' of
               (started, w'') \<Rightarrow> if started then w'' else warn W_start_timeout w'')
          else w')"

definition update :: "env \<Rightarrow> options \<Rightarrow> world \<Rightarrow> (error + update_result) \<times> world" where
  "update E opts w =
     (let dryRun = opt_dryRun opts; force = opt_force opts
      in if \<not> isInstalled E w then (Inr U_not_installed, warn E_not_installed w)
         else (case getInstalledVersion E w of
                 (currentVersion, w1) \<Rightarrow>
           (let newVersion = pkg_version E
            in if currentVersion = Some newVersion \<and> \<not> force
               then (Inr U_already_up_to_date, w1)
               else (case getCustomizedFiles E w1 of
                       (Inl e, w2) \<Rightarrow> (Inl e, w2)
                     | (Inr customized, w2) \<Rightarrow>
                 (let w3 = (if 0 < length customized then warn W_customized_detected w2 else w2)
                  in case isRunning E w3 of
                       (wasRunning, w4) \<Rightarrow>
                   (let w5 = (if wasRunning then stop_service E dryRun w4 else w4)
                    in case update_components E dryRun customized (getAllComponents E) [] [] w5 of
                         (Inl (n, e), w6) \<Rightarrow> (Inr (U_update_failed n e), w6)
                       | (Inr (updated, preserved), w6) \<Rightarrow>
                           (let w7 = update_plist E dryRun w6;
                                w8 = update_record E dryRun w7;
                                w9 = (if wasRunning then restart_service E dryRun w8 else w8)
                            in (Inr (U_updated currentVersion newVersion updated preserved
                                       dryRun), w9))))))))"

subsection \<open>start.js, stop.js, restart.js\<close>

datatype start_result =
    S_not_installed | S_already_running | S_started | S_start_timeout | S_dry_run
  | S_start_failed error

fun start_success :: "start_result \<Rightarrow> bool" where
  "start_success S_already_running = True"
| "start_success S_started = True"
| "start_success S_dry_run = True"
| "start_success r = False"

definition start :: "env \<Rightarrow> options \<Rightarrow> world \<Rightarrow> start_result \<times> world" where
  "start E opts w =
     (let dryRun = opt_dryRun opts
      in if \<not> isInstalled E w then (S_not_installed, warn E_not_installed w)
         else (case getStatus E w of
                 (status, w1) \<Rightarrow>
                   if st_running status \<and> \<not> dryRun then (S_already_running, w1)
                   else (case load E dryRun w1 of
                           (Inl e, w2) \<Rightarrow> (S_start_failed e, warn (E_start_failed e) w2)
                         | (Inr r, w2) \<Rightarrow>
                             if \<not> dryRun then
                               (case waitForStart E 10 w2 of
                                  (started, w3) \<Rightarrow>
                                    if started then (S_started, w3)
                                    else (S_start_timeout, warn E_start_timeout w3))
                             else (S_dry_run, w2))))"

datatype stop_result =
    P_not_installed | P_already_stopped | P_stopped | P_stop_incomplete | P_dry_run
  | P_stop_failed error

fun stop_success :: "stop_result \<Rightarrow> bool" where
  "stop_success P_already_stopped = True"
| "stop_success P_stopped = True"
| "stop_success P_dry_run = True"
| "stop_success r = False"

definition stop :: "env \<Rightarrow> options \<Rightarrow> world \<Rightarrow> stop_result \<times> world" where
  "stop E opts w =
     (let dryRun = opt_dryRun opts
      in if \<not> isInstalled E w then (P_not_installed, warn E_not_installed w)
         else (case getStatus E w of
                 (status, w1) \<Rightarrow>
                   if \<not> st_running status \<and> \<not> dryRun
                   then (P_already_stopped, warn W_not_running w1)
                   else (case unload E dryRun w1 of
                           (Inl e, w2) \<Rightarrow> (P_stop_failed e, warn (E_stop_failed e) w2)
                         | (Inr r, w2) \<Rightarrow>
                             if \<not> dryRun then
                               (case getStatus E (sleep 2000 w2) of
                                  (newStatus, w3) \<Rightarrow>
                                    if \<not> st_running newStatus then (P_stopped, w3)
                                    else (P_stop_incomplete, warn W_may_still_be_running w3))
                             else (P_dry_run, w2))))"

datatype restart_result =
    R_stop_failed stop_result | R_start_failed start_result | R_restarted stop_result start_result

fun restart_success :: "restart_result \<Rightarrow> bool" where
  "restart_success (R_restarted a b) = True"
| "restart_success r = False"

definition restart :: "env \<Rightarrow> options \<Rightarrow> world \<Rightarrow> restart_result \<times> world" where
  "restart E opts w =
     (let dryRun = opt_dryRun opts
      in case stop E opts w of
           (stopResult, w1) \<Rightarrow>
             if \<not> stop_success stopResult \<and> stopResult \<noteq> P_already_stopped
             then (R_stop_failed stopResult, w1)
             else (case start E opts (if \<not> dryRun then sleep 1000 w1 else w1) of
                     (startResult, w2) \<Rightarrow>
                       if \<not> start_success startResult then (R_start_failed startResult, w2)
                       else (R_restarted stopResult startResult, w2)))"

subsection \<open>uninstaller.js\<close>

text \<open>\<open>`${Date.now()}`\<close>: the clock in decimal digits.\<close>

fun decimal :: "nat \<Rightarrow> string" where
  "decimal n =
     (if n < 10 then [char_of (48 + n)]
      else decimal (n div 10) @ [char_of (48 + n mod 10)])"

datatype uninstall_result =
    N_not_installed
  | N_removal_failed error
  | N_uninstalled bool bool bool

fun uninstall_success :: "uninstall_result \<Rightarrow> bool" where
  "uninstall_success (N_uninstalled preservedLogs createdBackup d) = True"
| "uninstall_success r = False"

text \<open>The \<open>try\<close> that backs the install directory up and removes it.\<close>

definition remove_installation ::
  "env \<Rightarrow> bool \<Rightarrow> bool \<Rightarrow> string list \<Rightarrow> world \<Rightarrow> (error + bool) \<times> world" where
  "remove_installation E dryRun backup customized w =
     (let installPath = getInstallPath E
      in case (if backup \<and> \<not> dryRun \<and> 0 < length customized then
                 (let backupPath = path_append installPath (''.backup-'' @ decimal (now w))
                  in if existsSync w installPath then cpSync_recursive w installPath backupPath
                     else Inr w)
               else Inr w) of
           Inl e \<Rightarrow> (Inl (OsError e), w)
         | Inr w1 \<Rightarrow> removeDirectory installPath dryRun w1)"

definition remove_log :: "env \<Rightarrow> bool \<Rightarrow> world \<Rightarrow> world" where
  "remove_log E dryRun w =
     (case removeFile (getLogPath E) dryRun w of
        (Inr removed, w') \<Rightarrow> w'
      | (Inl e, w') \<Rightarrow> warn (W_remove_log_failed e) w')"

definition remove_descriptor :: "env \<Rightarrow> bool \<Rightarrow> world \<Rightarrow> world" where
  "remove_descriptor E dryRun w =
     (case removePlist E dryRun w of
        (Inr removed, w') \<Rightarrow> w'
      | (Inl e, w') \<Rightarrow> warn (W_remove_plist_failed e) w')"

definition uninstall :: "env \<Rightarrow> options \<Rightarrow> world \<Rightarrow> (error + uninstall_result) \<times> world" where
  "uninstall E opts w =
     (let dryRun = opt_dryRun opts; preserveLogs = opt_preserveLogs opts;
          backup = opt_backup opts
      in if \<not> isInstalled E w then (Inr N_not_installed, warn E_not_installed w)
         else (case readMetadata E w of
                 (meta, w1) \<Rightarrow>
           (case getCustomizedFiles E w1 of
              (Inl e, w2) \<Rightarrow> (Inl e, w2)
            | (Inr customized, w2) \<Rightarrow>
             (let w3 = (if 0 < length customized \<and> \<not> dryRun
                        then warn W_customized_detected w2 else w2)
              in case getStatus E w3 of
                   (serviceStatus, w4) \<Rightarrow>
                (let w5 = (if st_running serviceStatus \<or> st_loaded serviceStatus
                           then stop_service E dryRun w4 else w4);
                     w6 = remove_descriptor E dryRun w5
                 in case remove_installation E dryRun backup customized w6 of
                      (Inl e, w7) \<Rightarrow> (Inr (N_removal_failed e), warn (E_removal_failed e) w7)
                    | (Inr removed, w7) \<Rightarrow>
                        (let w8 = (if preserveLogs then w7 else remove_log E dryRun w7)
                         in (Inr (N_uninstalled preserveLogs (backup \<and> 0 < length customized)
                                   dryRun), w8)))))))"

subsection \<open>installer.js\<close>

datatype install_result =
    I_already_installed
  | I_environment_check_failed "env_error list"
  | I_directory_creation_failed error
  | I_component_install_failed string error
  | I_launchagent_creation_failed error
  | I_installed "string list" path bool

fun install_success :: "install_result \<Rightarrow> bool" where
  "install_success (I_installed installed installPath d) = True"
| "install_success r = False"

text \<open>The body of the \<open>try\<close> in the component loop of \<open>install\<close>.\<close>

definition install_one :: "env \<Rightarrow> bool \<Rightarrow> component \<Rightarrow> world \<Rightarrow> (error + bool) \<times> world" where
  "install_one E dryRun c w =
     (case resolveSourcePath E w (c_source c) of
        Inl e \<Rightarrow> (Inl e, w)
      | Inr sourcePath \<Rightarrow> copyFile sourcePath (c_target c) dryRun True w)"

fun install_components ::
  "env \<Rightarrow> bool \<Rightarrow> component list \<Rightarrow> string list \<Rightarrow> world
   \<Rightarrow> ((string \<times> error) + string list) \<times> world" where
  "install_components E dryRun [] installed w = (Inr installed, w)"
| "install_components E dryRun (c # cs) installed w =
     (case install_one E dryRun c w of
        (Inr copied, w') \<Rightarrow>
          install_components E dryRun cs (installed @ [c_name c]) w'
      | (Inl e, w') \<Rightarrow>
          if c_type c = Required
          then (Inl (c_name c, e), warn (E_install_failed (c_name c) e) w')
          else install_components E dryRun cs installed
                 (warn (W_install_skipped (c_name c) e) w'))"

text \<open>Step 7, the \<open>try\<close> that starts the service, and step 8, the one that writes the record.\<close>

definition install_start :: "env \<Rightarrow> bool \<Rightarrow> world \<Rightarrow> world" where
  "install_start E dryRun w =
     (case load E dryRun w of
        (Inl e, w') \<Rightarrow> warn (W_install_start_failed e) w'
      | (Inr r, w') \<Rightarrow>
          if \<not> dryRun then
            (case waitForStart E 10 w' of
               (started, w'') \<Rightarrow> if started then w'' else warn W_install_start_timeout w'')
          else w')"

definition install_record :: "env \<Rightarrow> bool \<Rightarrow> world \<Rightarrow> world" where
  "install_record E dryRun w =
     (case createMetadata E dryRun w of
        (Inr m, w') \<Rightarrow> w'
      | (Inl e, w') \<Rightarrow> warn (W_create_metadata_failed e) w')"

definition install :: "env \<Rightarrow> options \<Rightarrow> world \<Rightarrow> install_result \<times> world" where
  "install E opts w =
     (let dryRun = opt_dryRun opts; force = opt_force opts
      in if isInstalled E w \<and> \<not> force then (I_already_installed, warn E_already_installed w)
         else (case validateEnvironment E w of
                 (envCheck, w1) \<Rightarrow>
           (let w2 = displayEnvironmentCheck envCheck w1
            in if \<not> ec_valid envCheck
               then (I_environment_check_failed (ec_errors envCheck), w2)
               else (let installPath = getInstallPath E
                     in case ensureDirectoryExists installPath dryRun w2 of
                          (Inl e, w3) \<Rightarrow>
                            (I_directory_creation_failed e, warn (E_create_directory_failed e) w3)
                        | (Inr created, w3) \<Rightarrow>
                   (case install_components E dryRun (getAllComponents E) [] w3 of
                      (Inl (n, e), w4) \<Rightarrow> (I_component_install_failed n e, w4)
                    | (Inr installed, w4) \<Rightarrow>
                        (case createPlist E dryRun w4 of
                           (Inl e, w5) \<Rightarrow>
                             (I_launchagent_creation_failed e,
                              warn (E_create_launchagent_failed e) w5)
                         | (Inr r, w5) \<Rightarrow>
                             (let w6 = install_start E dryRun w5;
                                  w7 = install_record E dryRun w6;
                                  w8 = (case chk_elevenLabs envCheck of
                                          Inr voiceId \<Rightarrow> w7
                                        | Inl e \<Rightarrow> warn W_elevenlabs_key_missing w7)
                              in (I_installed installed installPath dryRun,
                                  w8))))))))"

section \<open>install.js: the command line\<close>

record parsed =
  p_command :: "string option"
  p_options :: options

definition startsWith :: "string \<Rightarrow> string \<Rightarrow> bool" where
  "startsWith s pre = prefix pre s"

text \<open>
  The loop of \<open>parseArgs\<close>; \<open>Inl code\<close> is \<open>process.exit(code)\<close> called from inside it
  (\<open>--help\<close> and \<open>--version\<close>).
\<close>

fun parse_loop :: "string list \<Rightarrow> parsed \<Rightarrow> nat + parsed" where
  "parse_loop [] p = Inr p"
| "parse_loop (arg # args) p =
     (if arg = ''--help'' \<or> arg = ''-h'' then Inl 0
      else if arg = ''--version'' \<or> arg = ''-v'' then Inl 0
      else if arg = ''--dry-run''
        then parse_loop args (p\<lparr>p_options := (p_options p)\<lparr>opt_dryRun := True\<rparr>\<rparr>)
      else if arg = ''--yes'' \<or> arg = ''-y''
        then parse_loop args (p\<lparr>p_options := (p_options p)\<lparr>opt_yes := True\<rparr>\<rparr>)
      else if arg = ''--verbose''
        then parse_loop args (p\<lparr>p_options := (p_options p)\<lparr>opt_verbose := True\<rparr>\<rparr>)
      else if arg = ''--force'' \<or> arg = ''-f''
        then parse_loop args (p\<lparr>p_options := (p_options p)\<lparr>opt_force := True\<rparr>\<rparr>)
      else if arg = ''--preserve-logs''
        then parse_loop args (p\<lparr>p_options := (p_options p)\<lparr>opt_preserveLogs := True\<rparr>\<rparr>)
      else if arg = ''--backup''
        then parse_loop args (p\<lparr>p_options := (p_options p)\<lparr>opt_backup := True\<rparr>\<rparr>)
      else if \<not> startsWith arg ''--'' \<and> \<not> startsWith arg ''-''
        then (case p_command p of
                None \<Rightarrow> parse_loop args (p\<lparr>p_command := Some arg\<rparr>)
              | Some c \<Rightarrow>
                  if c = [] then parse_loop args (p\<lparr>p_command := Some arg\<rparr>)
                  else parse_loop args p)
      else parse_loop args p)"

definition default_options :: options where
  "default_options =
     \<lparr>opt_dryRun = False, opt_yes = False, opt_verbose = False, opt_force = False,
      opt_preserveLogs = False, opt_backup = False\<rparr>"

definition parseArgs :: "string list \<Rightarrow> nat + parsed" where
  "parseArgs args = parse_loop args \<lparr>p_command = None, p_options = default_options\<rparr>"

datatype command = Install | Update | Uninstall | Start | Stop | Restart | Status | Verify

text \<open>
  \<open>commands[command]\<close>: an own property of the table, or a property every object
  inherits from \<open>Object.prototype\<close>, or \<open>undefined\<close>.
\<close>

datatype table_entry = Own command | Inherited string | Undefined

definition object_prototype_names :: "string list" where
  "object_prototype_names =
     [''constructor'', ''__defineGetter__'', ''__defineSetter__'', ''hasOwnProperty'',
      ''__lookupGetter__'', ''__lookupSetter__'', ''isPrototypeOf'', ''propertyIsEnumerable'',
      ''toString'', ''valueOf'', ''__proto__'', ''toLocaleString'']"

definition lookup_command :: "string \<Rightarrow> table_entry" where
  "lookup_command c =
     (if c = ''install'' then Own Install
      else if c = ''update'' then Own Update
      else if c = ''uninstall'' then Own Uninstall
      else if c = ''start'' then Own Start
      else if c = ''stop'' then Own Stop
      else if c = ''restart'' then Own Restart
      else if c = ''status'' then Own Status
      else if c = ''verify'' then Own Verify
      else if c \<in> set object_prototype_names then Inherited c
      else Undefined)"

text \<open>
  What a handler did: it returned a result whose \<open>success\<close> is the given value
  (\<open>None\<close> when the result has no such property), or it threw.
\<close>

datatype outcome = Returned "bool option" | Threw string

text \<open>
  Calling an inherited property with the options as its argument:
  \<open>__defineGetter__\<close> and \<open>__defineSetter__\<close> throw for want of a function,
  \<open>__proto__\<close> is no function, and the others return a value without \<open>success\<close>.
\<close>

definition call_inherited :: "string \<Rightarrow> outcome" where
  "call_inherited n =
     (if n = ''__defineGetter__'' \<or> n = ''__defineSetter__'' \<or> n = ''__proto__''
      then Threw ''TypeError'' else Returned None)"

definition exit_code :: "outcome \<Rightarrow> nat" where
  "exit_code r = (case r of Returned s \<Rightarrow> if s = Some False then 1 else 0 | Threw msg \<Rightarrow> 1)"

text \<open>
  \<open>main\<close>, with the handlers of the command table as the parameter \<open>run\<close>; the result is
  the code the process exits with.
\<close>

definition main ::
  "(command \<Rightarrow> options \<Rightarrow> world \<Rightarrow> outcome \<times> world) \<Rightarrow> string list \<Rightarrow> world \<Rightarrow> nat \<times> world" where
  "main run argv w =
     (case parseArgs argv of
        Inl code \<Rightarrow> (code, w)
      | Inr p \<Rightarrow>
          (let command = (case p_command p of
                            None \<Rightarrow> ''status''
                          | Some c \<Rightarrow> if c = [] then ''status'' else c)
           in case lookup_command command of
                Undefined \<Rightarrow> (1, warn (E_unknown_command command) w)
              | Own c \<Rightarrow>
                  (case run c (p_options p) w of
                     (Returned s, w') \<Rightarrow> (exit_code (Returned s), w')
                   | (Threw msg, w') \<Rightarrow> (exit_code (Threw msg), warn (E_command_faulted msg) w'))
              | Inherited n \<Rightarrow>
                  (case call_inherited n of
                     Returned s \<Rightarrow> (exit_code (Returned s), w)
                   | Threw msg \<Rightarrow> (exit_code (Threw msg), warn (E_command_faulted msg) w))))"

section \<open>An installation to evaluate the program on\<close>

text \<open>
  Version 1.0.0 is installed under \<open>/home\<close> and its \<open>voices.json\<close> has been edited since;
  the package under \<open>/pkg\<close> ships version 1.1.0. The service is neither loaded nor
  running, the operating system refuses nothing, and the machine passes the
  environment validation.
\<close>

definition example_env :: env where
  "example_env =
     \<lparr>homedir = [''home''], setup_root = [''pkg''], pkg_version = ''1.1.0'',
      sha256 = (\<lambda>c. case c of Raw s \<Rightarrow> ''sha:'' @ s | Json j \<Rightarrow> ''sha:json''
                              | PlistDoc p \<Rightarrow> ''sha:plist''),
      toISOString = (\<lambda>n. ''2025-01-01T00:00:00.000Z''),
      os_platform = ''darwin'', node_major = 20,
      which = (\<lambda>c. Some (''/usr/bin/'' @ c)), bun_version = Some ''1.1.0''\<rparr>"

definition example_metadata :: metadata where
  "example_metadata =
     \<lparr>md_version = ''1.0.0'', md_installDate = ''2024-06-01T00:00:00.000Z'',
      md_lastUpdate = None,
      installedComponents =
        [''server'' \<mapsto> \<lparr>cm_version = ''1.0.0'', cm_hash = Some ''sha:server v1'',
                          cm_modified = False, cm_installDate = ''2024-06-01T00:00:00.000Z'',
                          cm_lastUpdate = None\<rparr>,
         ''voices'' \<mapsto> \<lparr>cm_version = ''1.0.0'', cm_hash = Some ''sha:voices v1'',
                          cm_modified = False, cm_installDate = ''2024-06-01T00:00:00.000Z'',
                          cm_lastUpdate = None\<rparr>],
      md_service_name = ''com.pai.voice-server'', md_service_status = ''installed''\<rparr>"

definition example_files :: "(path \<times> node) list" where
  "example_files =
     [([''home''], Dir),
      ([''home'', ''.claude''], Dir),
      ([''home'', ''.claude'', ''pai-voice-server''], Dir),
      ([''home'', ''.claude'', ''pai-voice-server'', ''server.ts''], File (Raw ''server v1'') 420),
      ([''home'', ''.claude'', ''pai-voice-server'', ''voices.json''], File (Raw ''my voices'') 384),
      ([''home'', ''.claude'', ''pai-voice-server'', ''.metadata.json''],
         File (Json (JRecord example_metadata)) 420),
      ([''home'', ''Library''], Dir),
      ([''home'', ''Library'', ''LaunchAgents''], Dir),
      ([''pkg''], Dir),
      ([''pkg'', ''dist''], Dir),
      ([''pkg'', ''dist'', ''server.ts''], File (Raw ''server v2'') 493),
      ([''pkg'', ''dist'', ''voices.json''], File (Raw ''voices v2'') 420)]"

definition idle_daemon :: daemon_state where
  "idle_daemon = \<lparr>port_pids = [], health_body = None, lsof_ms = 0, curl_ms = 0\<rparr>"

definition example_world :: world where
  "example_world =
     \<lparr>files = map_of example_files, denied = (\<lambda>a p. False), loaded = False,
      launchctl_fault = None, daemon = (\<lambda>t. idle_daemon), now = 0, logged = []\<rparr>"

definition real_run :: options where
  "real_run = default_options"

definition dry_run :: options where
  "dry_run = default_options\<lparr>opt_dryRun := True\<rparr>"

section \<open>Customization, as the specification words it\<close>

text \<open>
  A component is customized against a record when the record has an entry for it, its
  target file exists, and the hash of the file differs from the stored hash.
\<close>

definition is_customized :: "env \<Rightarrow> world \<Rightarrow> metadata \<Rightarrow> component \<Rightarrow> bool" where
  "is_customized E w m c =
     (case installedComponents m (c_name c) of
        None \<Rightarrow> False
      | Some componentMeta \<Rightarrow>
          existsSync w (c_target c)
          \<and> calculateFileHash E w (c_target c) \<noteq> cm_hash componentMeta)"

text \<open>The example installation after its \<open>server.ts\<close> has been edited as well.\<close>

definition server_edited_world :: world where
  "server_edited_world =
     example_world\<lparr>files := (files example_world)
       ([''home'', ''.claude'', ''pai-voice-server'', ''server.ts''] \<mapsto> File (Raw ''my server'') 420)\<rparr>"

text \<open>
  The same installation when the operating system refuses to write the backup copy of
  \<open>server.ts\<close>.
\<close>

definition backup_refused_world :: world where
  "backup_refused_world =
     server_edited_world\<lparr>denied :=
       (\<lambda>a p. a = AccWrite
              \<and> p = backup_path example_env server_edited_world (getServerPath example_env))\<rparr>"

text \<open>
  The example installation with its descriptor in place and a supervisor that rejects
  every command.
\<close>

definition fault_world :: world where
  "fault_world =
     example_world\<lparr>files := (files example_world)
         (getLaunchAgentPath example_env \<mapsto>
            File (PlistDoc (generatePlist example_env example_world)) 420),
       launchctl_fault := Some ''Load failed: 5: Input/output error''\<rparr>"

text \<open>The example installation seen from a package that ships the installed version.\<close>

definition same_version_env :: env where
  "same_version_env = example_env\<lparr>pkg_version := ''1.0.0''\<rparr>"

text \<open>A command table whose every handler reports success and changes nothing.\<close>

definition succeeding_handlers :: "command \<Rightarrow> options \<Rightarrow> world \<Rightarrow> outcome \<times> world" where
  "succeeding_handlers c opts w = (Returned (Some True), w)"

text \<open>
  The example installation with a daemon that holds the port but never answers the
  health request.
\<close>

definition hung_world :: world where
  "hung_world =
     example_world\<lparr>daemon := (\<lambda>t. \<lparr>port_pids = ''4242'', health_body = None, lsof_ms = 0,
                                      curl_ms = 5000\<rparr>)\<rparr>"

text \<open>
  What a dry run must leave alone: the files, what the operating system refuses, and
  the supervisor's table. The clock and the log are not part of it.
\<close>

definition same_state :: "world \<Rightarrow> world \<Rightarrow> bool" where
  "same_state w w' =
     (files w' = files w \<and> denied w' = denied w \<and> loaded w' = loaded w
      \<and> launchctl_fault w' = launchctl_fault w)"

section \<open>The parts of the specification, in its own words\<close>

text \<open>
  \<open>mkdir -p\<close> is permitted on \<open>d\<close> when neither \<open>d\<close> nor an ancestor is a regular file and
  no missing directory on the way is refused.
\<close>

definition mkdir_permitted :: "world \<Rightarrow> path \<Rightarrow> bool" where
  "mkdir_permitted w d =
     (\<not> list_ex (isFile w) (prefixes d)
      \<and> \<not> list_ex (\<lambda>q. node_at w q = None \<and> denied w AccWrite q) (prefixes d))"

text \<open>
  The operating system permits the copy of \<open>source\<close> to \<open>target\<close>: the source is a regular
  file that may be read; the target is no directory, may be written and may have its
  mode changed; and the parent directory of the target can be created when it is
  missing, and is a directory when the target is new.
\<close>

definition os_permits :: "world \<Rightarrow> path \<Rightarrow> path \<Rightarrow> bool" where
  "os_permits w source target =
     (isFile w source \<and> \<not> denied w AccRead source
      \<and> \<not> isDir w target \<and> \<not> denied w AccWrite target \<and> \<not> denied w AccChmod target
      \<and> (if existsSync w (dirname target)
          then existsSync w target \<or> isDir w (dirname target)
          else mkdir_permitted w (dirname target)))"

text \<open>
  The example installation when \<open>server.ts\<close> belongs to another user: it may be written,
  but its mode may not be changed.
\<close>

definition foreign_server_world :: world where
  "foreign_server_world =
     example_world\<lparr>denied := (\<lambda>a p. a = AccChmod \<and> p = getServerPath example_env)\<rparr>"

text \<open>The example installation when \<open>server.ts\<close> may not be written.\<close>

definition readonly_server_world :: world where
  "readonly_server_world =
     example_world\<lparr>denied := (\<lambda>a p. a = AccWrite \<and> p = getServerPath example_env)\<rparr>"

text \<open>
  The example installation with \<open>{}\<close> for its record file, and the same without the two
  component files.
\<close>

definition empty_object_world :: world where
  "empty_object_world =
     example_world\<lparr>files := (files example_world)
       (getMetadataPath example_env \<mapsto> File (Json (JObject None)) 420)\<rparr>"

definition bare_object_world :: world where
  "bare_object_world =
     empty_object_world\<lparr>files := (files empty_object_world)
       (getServerPath example_env := None, getVoicesPath example_env := None)\<rparr>"

text \<open>A machine on which nothing is installed and \<open>~/.claude\<close> does not exist.\<close>

definition fresh_world :: world where
  "fresh_world =
     example_world\<lparr>files := map_of
       [([''home''], Dir),
        ([''pkg''], Dir),
        ([''pkg'', ''dist''], Dir),
        ([''pkg'', ''dist'', ''server.ts''], File (Raw ''server v2'') 493),
        ([''pkg'', ''dist'', ''voices.json''], File (Raw ''voices v2'') 420)]\<rparr>"

text \<open>
  The polls of \<open>awaitRunning\<close>: the state in which poll \<open>k\<close> starts, after \<open>k\<close> probes each
  followed by a sleep of one second; whether that poll starts before the timeout has
  elapsed; and whether its probe succeeds.
\<close>

fun poll_world :: "env \<Rightarrow> world \<Rightarrow> nat \<Rightarrow> world" where
  "poll_world E w 0 = w"
| "poll_world E w (Suc k) = sleep 1000 (snd (isRunning E (poll_world E w k)))"

definition in_time :: "env \<Rightarrow> world \<Rightarrow> int \<Rightarrow> nat \<Rightarrow> bool" where
  "in_time E w timeout k = (int (now (poll_world E w k)) - int (now w) < timeout * 1000)"

definition probe_succeeds :: "env \<Rightarrow> world \<Rightarrow> nat \<Rightarrow> bool" where
  "probe_succeeds E w k = fst (isRunning E (poll_world E w k))"

text \<open>
  The example installation with a daemon that takes the port and answers the health
  request from one second on.
\<close>

definition late_world :: world where
  "late_world =
     example_world\<lparr>daemon := (\<lambda>t. if t < 1000 then idle_daemon
                                  else \<lparr>port_pids = ''4242'', health_body = Some ''healthy'',
                                        lsof_ms = 10, curl_ms = 20\<rparr>)\<rparr>"

section \<open>Facts about the file operations\<close>

lemmas fs_defs =
  node_at_def existsSync_def isDir_def isFile_def dirname_def readFileSync_def
  copyFileSync_def statSync_mode_def chmodSync_def mkdirSync_recursive_def unlinkSync_def
  rmSync_recursive_def writeFileSync_def cpSync_recursive_def

lemmas path_defs =
  getInstallBasePath_def getInstallPath_def getLaunchAgentPath_def getLogPath_def
  getMetadataPath_def getServerPath_def getVoicesPath_def

lemmas example_defs =
  example_world_def example_files_def example_env_def example_metadata_def idle_daemon_def
  real_run_def dry_run_def default_options_def

lemma mkdir_node_at:
  "mkdirSync_recursive w p = Inr w' \<Longrightarrow>
   node_at w' q = (if prefix q p then Some Dir else node_at w q)"
  by (auto simp: mkdirSync_recursive_def node_at_def split: if_splits)

lemma mkdir_no_file_prefix:
  "mkdirSync_recursive w p = Inr w' \<Longrightarrow> prefix q p \<Longrightarrow> \<not> isFile w q"
  by (auto simp: mkdirSync_recursive_def list_ex_iff split: if_splits)

lemma mkdir_keeps_file:
  assumes "mkdirSync_recursive w p = Inr w'" and "node_at w q = Some (File c m)"
  shows "node_at w' q = Some (File c m)"
proof -
  have "\<not> prefix q p"
    using mkdir_no_file_prefix [OF assms(1), of q] assms(2) by (auto simp: isFile_def)
  then show ?thesis using mkdir_node_at [OF assms(1), of q] assms(2) by simp
qed

lemma mkdir_frame:
  "mkdirSync_recursive w p = Inr w' \<Longrightarrow>
   denied w' = denied w \<and> loaded w' = loaded w \<and> now w' = now w \<and> logged w' = logged w
   \<and> daemon w' = daemon w \<and> launchctl_fault w' = launchctl_fault w"
  by (auto simp: mkdirSync_recursive_def split: if_splits)

lemma mkdir_permitted_iff:
  "mkdir_permitted w d \<longleftrightarrow> (\<exists>w'. mkdirSync_recursive w d = Inr w')"
  by (auto simp: mkdir_permitted_def mkdirSync_recursive_def list_ex_iff)

lemma copyFileSync_ok:
  "copyFileSync w s t = (None, w') \<Longrightarrow>
   \<exists>c m. node_at w s = Some (File c m) \<and> w' = w\<lparr>files := (files w)(t \<mapsto> File c m)\<rparr>
     \<and> t \<noteq> [] \<and> \<not> denied w AccRead s \<and> \<not> isDir w t \<and> \<not> denied w AccWrite t
     \<and> (node_at w t = None \<longrightarrow> isDir w (dirname t))
     \<and> (node_at w t \<noteq> None \<longrightarrow> \<not> denied w AccChmod t)"
  unfolding copyFileSync_def node_at_def isDir_def
  by (auto split: option.splits node.splits if_splits)

lemma copyFileSync_permitted:
  assumes "node_at w s = Some (File c m)" and "\<not> denied w AccRead s" and "\<not> isDir w t"
    and "\<not> denied w AccWrite t" and "\<not> denied w AccChmod t"
    and "node_at w t = None \<longrightarrow> isDir w (dirname t)"
  shows "copyFileSync w s t = (None, w\<lparr>files := (files w)(t \<mapsto> File c m)\<rparr>)"
  using assms unfolding copyFileSync_def isDir_def
  by (auto split: option.splits node.splits)

lemma copyFileSync_frame:
  "denied (snd (copyFileSync w s t)) = denied w \<and> now (snd (copyFileSync w s t)) = now w
   \<and> loaded (snd (copyFileSync w s t)) = loaded w
   \<and> launchctl_fault (snd (copyFileSync w s t)) = launchctl_fault w
   \<and> logged (snd (copyFileSync w s t)) = logged w
   \<and> daemon (snd (copyFileSync w s t)) = daemon w"
  unfolding copyFileSync_def by (auto split: option.splits node.splits)

lemma copyFileSync_elsewhere:
  "p \<noteq> t \<Longrightarrow> node_at (snd (copyFileSync w s t)) p = node_at w p"
  unfolding copyFileSync_def node_at_def by (auto split: option.splits node.splits)

lemma ensure_real:
  "ensureDirectoryExists d False w = (Inr b, w1) \<Longrightarrow>
   (existsSync w d \<and> w1 = w) \<or> (\<not> existsSync w d \<and> mkdirSync_recursive w d = Inr w1)"
  by (auto simp: ensureDirectoryExists_def split: if_splits sum.splits)

lemma ensure_real_fail:
  "ensureDirectoryExists d False w = (Inl e, w1) \<Longrightarrow>
   w1 = w \<and> \<not> existsSync w d \<and> (\<exists>oe. e = FailedToCreateDirectory d oe
      \<and> mkdirSync_recursive w d = Inl oe)"
  by (auto simp: ensureDirectoryExists_def split: if_splits sum.splits)

lemma ensure_keeps_file:
  assumes "ensureDirectoryExists d False w = (Inr b, w1)" and "node_at w q = Some (File c m)"
  shows "node_at w1 q = Some (File c m)"
  using ensure_real [OF assms(1)] assms(2) mkdir_keeps_file by blast

lemma ensure_keeps_dir:
  assumes "ensureDirectoryExists d False w = (Inr b, w1)" and "node_at w q = Some Dir"
  shows "node_at w1 q = Some Dir"
  using ensure_real [OF assms(1)] assms(2) mkdir_node_at [of w d w1 q] by auto

lemma ensure_denied:
  "ensureDirectoryExists d False w = (Inr b, w1) \<Longrightarrow> denied w1 = denied w"
  using ensure_real [of d w b w1] mkdir_frame [of w d w1] by auto

lemma not_prefix_dirname: "t \<noteq> [] \<Longrightarrow> \<not> prefix t (dirname t)"
  by (cases t rule: rev_cases) (auto simp: dirname_def dest: prefix_length_le)

lemma ensure_target:
  assumes "ensureDirectoryExists (dirname t) False w = (Inr b, w1)"
  shows "node_at w1 t = node_at w t"
proof (cases "t = []")
  case True
  then show ?thesis by (simp add: node_at_def)
next
  case False
  then have "\<not> prefix t (dirname t)" by (rule not_prefix_dirname)
  then show ?thesis
    using ensure_real [OF assms] mkdir_node_at [of w "dirname t" w1 t] by auto
qed

lemma ensure_elsewhere:
  assumes "ensureDirectoryExists d False w = (Inr b, w1)" and "\<not> prefix q d"
  shows "node_at w1 q = node_at w q"
  using ensure_real [OF assms(1)] assms(2) mkdir_node_at [of w d w1 q] by auto

lemma ensure_creates:
  assumes "ensureDirectoryExists d False w = (Inr b, w1)" and "\<not> existsSync w d"
    and "prefix q d"
  shows "isDir w1 q"
  using ensure_real [OF assms(1)] assms(2,3) mkdir_node_at [of w d w1 q]
  by (auto simp: isDir_def)

lemma ensure_permitted:
  assumes "existsSync w d \<or> mkdir_permitted w d"
  shows "\<exists>b w1. ensureDirectoryExists d False w = (Inr b, w1)"
  using assms mkdir_permitted_iff [of w d]
  by (auto simp: ensureDirectoryExists_def)

lemma ensure_refused:
  assumes "\<not> existsSync w d" and "\<not> mkdir_permitted w d"
  shows "\<exists>oe. ensureDirectoryExists d False w = (Inl (FailedToCreateDirectory d oe), w)"
  using assms mkdir_permitted_iff [of w d]
  by (cases "mkdirSync_recursive w d") (auto simp: ensureDirectoryExists_def)

text \<open>The steps of a real copy once the directory is there.\<close>

definition copy_steps :: "path \<Rightarrow> path \<Rightarrow> world \<Rightarrow> (error + bool) \<times> world" where
  "copy_steps source target w1 =
     (case copyFileSync w1 source target of
        (Some e, w2) \<Rightarrow> (Inl (FailedToCopy source target e), w2)
      | (None, w2) \<Rightarrow>
          (case statSync_mode w2 source of
             Inl e \<Rightarrow> (Inl (FailedToCopy source target e), w2)
           | Inr m \<Rightarrow>
               (case chmodSync w2 target m of
                  Inl e \<Rightarrow> (Inl (FailedToCopy source target e), w2)
                | Inr w3 \<Rightarrow> (Inr True, w3))))"

lemma copyFile_copy_steps:
  assumes "existsSync w s" and "ov \<or> \<not> existsSync w t"
    and "ensureDirectoryExists (dirname t) False w = (Inr b, w1)"
  shows "copyFile s t False ov w = copy_steps s t w1"
  using assms by (auto simp: copyFile_def copy_steps_def)

lemma copy_steps_cases:
  "(\<exists>oe w'. copy_steps s t w1 = (Inl (FailedToCopy s t oe), w'))
   \<or> (\<exists>w'. copy_steps s t w1 = (Inr True, w'))"
  by (auto simp: copy_steps_def split: prod.splits option.splits sum.splits)

lemma copy_steps_permitted:
  assumes "node_at w1 s = Some (File c m)" and "\<not> denied w1 AccRead s" and "\<not> isDir w1 t"
    and "\<not> denied w1 AccWrite t" and "\<not> denied w1 AccChmod t"
    and "node_at w1 t = None \<longrightarrow> isDir w1 (dirname t)"
  shows "copy_steps s t w1 = (Inr True, w1\<lparr>files := (files w1)(t \<mapsto> File c m)\<rparr>)"
proof -
  let ?w2 = "w1\<lparr>files := (files w1)(t \<mapsto> File c m)\<rparr>"
  have tne: "t \<noteq> []" using assms(3) by (auto simp: isDir_def node_at_def)
  have cp: "copyFileSync w1 s t = (None, ?w2)" using assms by (rule copyFileSync_permitted)
  have "node_at ?w2 s = Some (File c m)" using assms(1) by (auto simp: node_at_def)
  then have st: "statSync_mode ?w2 s = Inr m" by (simp add: statSync_mode_def)
  have "node_at ?w2 t = Some (File c m)" using tne by (simp add: node_at_def)
  then have ch: "chmodSync ?w2 t m = Inr ?w2" using assms(5) by (simp add: chmodSync_def)
  show ?thesis using cp st ch by (simp add: copy_steps_def)
qed

lemma copy_steps_success:
  assumes "copy_steps s t w1 = (Inr True, w')"
  shows "\<exists>c m. node_at w1 s = Some (File c m) \<and> \<not> denied w1 AccRead s \<and> \<not> isDir w1 t
     \<and> \<not> denied w1 AccWrite t \<and> \<not> denied w1 AccChmod t
     \<and> (node_at w1 t = None \<longrightarrow> isDir w1 (dirname t))"
proof -
  obtain w2 m where cp: "copyFileSync w1 s t = (None, w2)" and ch: "chmodSync w2 t m = Inr w'"
    using assms by (auto simp: copy_steps_def split: prod.splits option.splits sum.splits)
  have d: "denied w2 = denied w1" using copyFileSync_frame [of w1 s t] cp by simp
  have "\<not> denied w2 AccChmod t"
    using ch by (auto simp: chmodSync_def split: option.splits node.splits if_splits)
  then show ?thesis using copyFileSync_ok [OF cp] d by auto
qed

text \<open>
  C8 (as the code has it). In a real run \<open>copyFile\<close> raises "Source file not found"
  when the source is absent. When the target is present and \<open>overwrite\<close> is false
  it raises nothing: it returns \<open>false\<close> and leaves everything as it was. Otherwise it
  copies exactly when the operating system permits it: then it returns \<open>true\<close>, the
  target holds the bytes and the mode of the source, a parent directory that was missing
  exists with all its ancestors, and nothing else has changed. When the operating system
  does not permit it, it raises the error of creating the directory if that is what was
  refused, and the error of the copy otherwise.
\<close>

theorem copyFile_real_run:
  "(\<not> existsSync w source \<longrightarrow>
      copyFile source target False overwrite w = (Inl (SourceFileNotFound source), w))
   \<and> (existsSync w source \<and> existsSync w target \<and> \<not> overwrite \<longrightarrow>
      copyFile source target False overwrite w = (Inr False, w))
   \<and> (existsSync w source \<and> (overwrite \<or> \<not> existsSync w target)
      \<and> os_permits w source target \<longrightarrow>
      (\<exists>w'. copyFile source target False overwrite w = (Inr True, w')
         \<and> (\<exists>c m. node_at w source = Some (File c m) \<and> node_at w' target = Some (File c m))
         \<and> (\<not> existsSync w (dirname target) \<longrightarrow>
              (\<forall>d. prefix d (dirname target) \<longrightarrow> isDir w' d))
         \<and> (\<forall>p. p \<noteq> target \<and> \<not> prefix p (dirname target) \<longrightarrow> node_at w' p = node_at w p)))
   \<and> (existsSync w source \<and> (overwrite \<or> \<not> existsSync w target)
      \<and> \<not> os_permits w source target \<longrightarrow>
      (\<exists>oe w'. copyFile source target False overwrite w =
         (Inl (if existsSync w (dirname target) \<or> mkdir_permitted w (dirname target)
               then FailedToCopy source target oe
               else FailedToCreateDirectory (dirname target) oe), w')))"
proof -
  let ?d = "dirname target"
  have A: "copyFile source target False overwrite w = (Inl (SourceFileNotFound source), w)"
    if "\<not> existsSync w source"
    using that by (simp add: copyFile_def)
  have B: "copyFile source target False overwrite w = (Inr False, w)"
    if "existsSync w source \<and> existsSync w target \<and> \<not> overwrite"
    using that by (simp add: copyFile_def)
  have C: "\<exists>w'. copyFile source target False overwrite w = (Inr True, w')
         \<and> (\<exists>c m. node_at w source = Some (File c m) \<and> node_at w' target = Some (File c m))
         \<and> (\<not> existsSync w ?d \<longrightarrow> (\<forall>d. prefix d ?d \<longrightarrow> isDir w' d))
         \<and> (\<forall>p. p \<noteq> target \<and> \<not> prefix p ?d \<longrightarrow> node_at w' p = node_at w p)"
    if a: "existsSync w source \<and> (overwrite \<or> \<not> existsSync w target)"
      and p: "os_permits w source target"
  proof -
    obtain c m where src: "node_at w source = Some (File c m)"
      using p by (auto simp: os_permits_def isFile_def split: option.splits node.splits)
    have perm: "existsSync w ?d \<or> mkdir_permitted w ?d"
      using p by (auto simp: os_permits_def split: if_splits)
    then obtain b w1 where e: "ensureDirectoryExists ?d False w = (Inr b, w1)"
      using ensure_permitted by blast
    have d: "denied w1 = denied w" using e by (rule ensure_denied)
    have s1: "node_at w1 source = Some (File c m)" using ensure_keeps_file [OF e src] .
    have t1: "node_at w1 target = node_at w target" using e by (rule ensure_target)
    have tne: "target \<noteq> []" using p by (auto simp: os_permits_def isDir_def node_at_def)
    have par: "node_at w1 target = None \<longrightarrow> isDir w1 ?d"
    proof
      assume n: "node_at w1 target = None"
      show "isDir w1 ?d"
      proof (cases "existsSync w ?d")
        case True
        then have "isDir w ?d" using p n t1 by (auto simp: os_permits_def existsSync_def)
        then show ?thesis using ensure_keeps_dir [OF e, of ?d] by (simp add: isDir_def)
      next
        case False
        then show ?thesis using ensure_creates [OF e False, of ?d] by simp
      qed
    qed
    let ?w' = "w1\<lparr>files := (files w1)(target \<mapsto> File c m)\<rparr>"
    have "copy_steps source target w1 = (Inr True, ?w')"
      using s1 d t1 par p by (intro copy_steps_permitted) (auto simp: os_permits_def isDir_def)
    then have r: "copyFile source target False overwrite w = (Inr True, ?w')"
      using copyFile_copy_steps [OF _ _ e] a by simp
    have n1: "node_at ?w' target = Some (File c m)" using tne by (simp add: node_at_def)
    have n2: "\<And>q. q \<noteq> target \<Longrightarrow> node_at ?w' q = node_at w1 q" by (simp add: node_at_def)
    have n3: "\<forall>d. prefix d ?d \<longrightarrow> isDir ?w' d" if "\<not> existsSync w ?d"
    proof (intro allI impI)
      fix q assume q: "prefix q ?d"
      have "q \<noteq> target" using q not_prefix_dirname [OF tne] by auto
      then show "isDir ?w' q" using ensure_creates [OF e that q] n2 by (simp add: isDir_def)
    qed
    have n4: "\<forall>q. q \<noteq> target \<and> \<not> prefix q ?d \<longrightarrow> node_at ?w' q = node_at w q"
      using n2 ensure_elsewhere [OF e] by simp
    show ?thesis using r src n1 n3 n4 by blast
  qed
  have D: "\<exists>oe w'. copyFile source target False overwrite w =
         (Inl (if existsSync w ?d \<or> mkdir_permitted w ?d
               then FailedToCopy source target oe
               else FailedToCreateDirectory ?d oe), w')"
    if a: "existsSync w source \<and> (overwrite \<or> \<not> existsSync w target)"
      and p: "\<not> os_permits w source target"
  proof (cases "existsSync w ?d \<or> mkdir_permitted w ?d")
    case False
    then obtain oe where "ensureDirectoryExists ?d False w = (Inl (FailedToCreateDirectory ?d oe), w)"
      using ensure_refused [of w ?d] by blast
    then have "copyFile source target False overwrite w = (Inl (FailedToCreateDirectory ?d oe), w)"
      using a by (auto simp: copyFile_def)
    then show ?thesis using False by auto
  next
    case True
    then obtain b w1 where e: "ensureDirectoryExists ?d False w = (Inr b, w1)"
      using ensure_permitted by blast
    have cs: "copyFile source target False overwrite w = copy_steps source target w1"
      using copyFile_copy_steps [OF _ _ e] a by simp
    have "\<not> (\<exists>w'. copy_steps source target w1 = (Inr True, w'))"
    proof
      assume "\<exists>w'. copy_steps source target w1 = (Inr True, w')"
      then obtain w' where ok: "copy_steps source target w1 = (Inr True, w')" by blast
      obtain c m where f: "node_at w1 source = Some (File c m)" "\<not> denied w1 AccRead source"
        "\<not> isDir w1 target" "\<not> denied w1 AccWrite target" "\<not> denied w1 AccChmod target"
        "node_at w1 target = None \<longrightarrow> isDir w1 ?d"
        using copy_steps_success [OF ok] by auto
      have d: "denied w1 = denied w" using e by (rule ensure_denied)
      have t1: "node_at w1 target = node_at w target" using e by (rule ensure_target)
      have "isFile w source"
      proof (cases "node_at w source")
        case None
        then show ?thesis using a by (simp add: existsSync_def)
      next
        case (Some n)
        then show ?thesis
          using ensure_keeps_dir [OF e, of source] f(1) by (cases n) (auto simp: isFile_def)
      qed
      moreover have "existsSync w target \<or> isDir w ?d" if "existsSync w ?d"
        using that ensure_real [OF e] f(6) t1 by (auto simp: existsSync_def)
      ultimately have "os_permits w source target"
        using f d t1 True by (auto simp: os_permits_def isDir_def)
      then show False using p by simp
    qed
    then obtain oe w' where "copy_steps source target w1 = (Inl (FailedToCopy source target oe), w')"
      using copy_steps_cases [of source target w1] by blast
    then show ?thesis using cs True by auto
  qed
  show ?thesis using A B C D by blast
qed

text \<open>
  The example installation with a parent directory to create, and with a \<open>server.ts\<close>
  whose mode may not be changed.
\<close>

theorem copyFile_real_run_witness:
  "\<not> existsSync example_world [''pkg'', ''dist'', ''README'']
   \<and> copyFile [''pkg'', ''dist'', ''README''] (getServerPath example_env) False True example_world
       = (Inl (SourceFileNotFound [''pkg'', ''dist'', ''README'']), example_world)
   \<and> copyFile [''pkg'', ''dist'', ''server.ts''] (getServerPath example_env) False False
         example_world
       = (Inr False, example_world)
   \<and> os_permits example_world [''pkg'', ''dist'', ''server.ts''] [''home'', ''new'', ''server.ts'']
   \<and> \<not> existsSync example_world [''home'', ''new'']
   \<and> (\<exists>w'. copyFile [''pkg'', ''dist'', ''server.ts''] [''home'', ''new'', ''server.ts''] False False
              example_world = (Inr True, w')
          \<and> node_at w' [''home'', ''new'', ''server.ts''] = Some (File (Raw ''server v2'') 493)
          \<and> isDir w' [''home'', ''new'']
          \<and> node_at w' (getServerPath example_env) = Some (File (Raw ''server v1'') 420))
   \<and> \<not> os_permits foreign_server_world [''pkg'', ''dist'', ''server.ts'']
         (getServerPath example_env)
   \<and> (\<exists>oe w'. copyFile [''pkg'', ''dist'', ''server.ts''] (getServerPath example_env) False True
              foreign_server_world
            = (Inl (FailedToCopy [''pkg'', ''dist'', ''server.ts''] (getServerPath example_env) oe),
               w'))"
proof -
  have absent: "\<not> existsSync example_world [''pkg'', ''dist'', ''README'']"
    by (simp add: fs_defs example_defs)
  have present: "existsSync example_world [''pkg'', ''dist'', ''server.ts'']
      \<and> existsSync example_world (getServerPath example_env)"
    by (simp add: fs_defs example_defs path_defs)
  have new: "\<not> existsSync example_world [''home'', ''new'', ''server.ts'']
      \<and> \<not> existsSync example_world [''home'', ''new'']
      \<and> dirname [''home'', ''new'', ''server.ts''] = [''home'', ''new'']"
    by (simp add: fs_defs example_defs)
  have permits: "os_permits example_world [''pkg'', ''dist'', ''server.ts'']
      [''home'', ''new'', ''server.ts'']"
    by (simp add: os_permits_def mkdir_permitted_def fs_defs example_defs)
  have src: "node_at example_world [''pkg'', ''dist'', ''server.ts'']
      = Some (File (Raw ''server v2'') 493)"
    by (simp add: fs_defs example_defs)
  have tgt: "node_at example_world (getServerPath example_env)
      = Some (File (Raw ''server v1'') 420)
      \<and> getServerPath example_env \<noteq> [''home'', ''new'', ''server.ts'']
      \<and> \<not> prefix (getServerPath example_env) [''home'', ''new'']"
    by (simp add: fs_defs example_defs path_defs)
  have foreign: "existsSync foreign_server_world [''pkg'', ''dist'', ''server.ts'']
      \<and> existsSync foreign_server_world (dirname (getServerPath example_env))
      \<and> \<not> os_permits foreign_server_world [''pkg'', ''dist'', ''server.ts'']
            (getServerPath example_env)"
    by (simp add: os_permits_def foreign_server_world_def fs_defs example_defs path_defs)
  from absent present new permits src tgt foreign
    copyFile_real_run [of example_world "[''pkg'', ''dist'', ''README'']"
      "getServerPath example_env" True]
    copyFile_real_run [of example_world "[''pkg'', ''dist'', ''server.ts'']"
      "getServerPath example_env" False]
    copyFile_real_run [of example_world "[''pkg'', ''dist'', ''server.ts'']"
      "[''home'', ''new'', ''server.ts'']" False]
    copyFile_real_run [of foreign_server_world "[''pkg'', ''dist'', ''server.ts'']"
      "getServerPath example_env" True]
  show ?thesis by (auto simp: isDir_def)
qed

text \<open>
  A target that is present with \<open>overwrite = false\<close> is skipped, not an error; and a copy
  the operating system refuses does not copy: here the copy over a \<open>server.ts\<close> whose
  mode may not be changed raises, and the target is gone.
\<close>

theorem copyFile_already_exists_counterexample:
  "existsSync example_world [''pkg'', ''dist'', ''server.ts'']
   \<and> existsSync example_world (getServerPath example_env)
   \<and> copyFile [''pkg'', ''dist'', ''server.ts''] (getServerPath example_env) False False
         example_world
       = (Inr False, example_world)
   \<and> existsSync foreign_server_world [''pkg'', ''dist'', ''server.ts'']
   \<and> existsSync foreign_server_world (getServerPath example_env)
   \<and> fst (copyFile [''pkg'', ''dist'', ''server.ts''] (getServerPath example_env) False True
            foreign_server_world)
       = Inl (FailedToCopy [''pkg'', ''dist'', ''server.ts''] (getServerPath example_env) EPERM)
   \<and> \<not> existsSync
         (snd (copyFile [''pkg'', ''dist'', ''server.ts''] (getServerPath example_env) False True
                 foreign_server_world))
         (getServerPath example_env)"
  by (simp add: copyFile_def ensureDirectoryExists_def foreign_server_world_def fs_defs
      example_defs path_defs)

section \<open>The record and the customizations\<close>

lemmas meta_defs =
  readMetadata_def readJSON_def writeJSON_def updateMetadata_def getCustomizedFiles_def
  getAllComponents_def server_component_def voices_component_def calculateFileHash_def
  fresh_metadata_def new_component_entry_def service_name_def warn_def

lemma readMetadata_Some: "readMetadata E w = (Some j, w') \<Longrightarrow> w' = w"
  by (auto simp: readMetadata_def Let_def split: if_splits sum.splits)

lemma readMetadata_files:
  "files (snd (readMetadata E w)) = files w \<and> denied (snd (readMetadata E w)) = denied w"
  by (auto simp: readMetadata_def Let_def warn_def split: if_splits sum.splits)

lemma customized_loop_filter:
  "customized_loop E w m cs acc = acc @ map c_name (filter (is_customized E w m) cs)"
  by (induction cs arbitrary: acc) (auto simp: is_customized_def split: option.splits)

lemma node_at_cong: "files w' = files w \<Longrightarrow> node_at w' p = node_at w p"
  by (simp add: node_at_def)

lemma is_customized_cong:
  assumes f: "files w' = files w" and d: "denied w' = denied w"
  shows "is_customized E w' m c = is_customized E w m c"
  unfolding is_customized_def existsSync_def calculateFileHash_def readFileSync_def
    node_at_cong [OF f] d
  by (rule refl)

lemma getCustomizedFiles_loop:
  "fst (getCustomizedFiles E w) =
     (case fst (readMetadata E w) of
        None \<Rightarrow> Inr []
      | Some JFalsy \<Rightarrow> Inr []
      | Some JValue \<Rightarrow> Inl (TypeError ''installedComponents'')
      | Some (JObject v) \<Rightarrow> Inl (TypeError ''installedComponents'')
      | Some (JRecord m) \<Rightarrow>
          Inr (map c_name (filter (is_customized E w m) (getAllComponents E))))"
proof (cases "readMetadata E w")
  case (Pair found w')
  show ?thesis
  proof (cases found)
    case None
    then show ?thesis using Pair by (simp add: getCustomizedFiles_def)
  next
    case (Some j)
    then have "w' = w" using Pair readMetadata_Some by blast
    then show ?thesis
      using Pair Some
      by (cases j) (simp_all add: getCustomizedFiles_def customized_loop_filter
          getAllComponents_def)
  qed
qed

text \<open>
  C4 (as the code has it). When the record file holds a record, \<open>getCustomizedFiles\<close>
  returns, in the manifest's order, exactly the names of the components that have an
  entry in the record, whose target file exists and whose recomputed hash differs from
  the stored one; a component whose target no longer exists is skipped. It returns
  nothing when the record file is absent, cannot be read or parsed, or holds a falsy
  value, and it throws a TypeError when the file holds any other value that is no
  record. Whether the component has \<open>preserveOnUpdate\<close> plays no part: an edited
  \<open>server.ts\<close> is returned too.
\<close>

theorem getCustomizedFiles_exact:
  "fst (getCustomizedFiles E w) =
     (case fst (readMetadata E w) of
        None \<Rightarrow> Inr []
      | Some JFalsy \<Rightarrow> Inr []
      | Some JValue \<Rightarrow> Inl (TypeError ''installedComponents'')
      | Some (JObject v) \<Rightarrow> Inl (TypeError ''installedComponents'')
      | Some (JRecord m) \<Rightarrow>
          Inr (map c_name (filter (is_customized E w m) (getAllComponents E))))"
proof (cases "readMetadata E w")
  case (Pair found w')
  show ?thesis
  proof (cases found)
    case None
    then show ?thesis using Pair by (simp add: getCustomizedFiles_def)
  next
    case (Some j)
    then have "w' = w" using Pair readMetadata_Some by blast
    then show ?thesis
      using Pair Some
      by (cases j) (simp_all add: getCustomizedFiles_def customized_loop_filter
          getAllComponents_def)
  qed
qed

text \<open>The example installation, and the same with \<open>{}\<close> for its record file.\<close>

theorem getCustomizedFiles_exact_witness:
  "fst (readMetadata example_env example_world) = Some (JRecord example_metadata)
   \<and> map c_name (filter (is_customized example_env example_world example_metadata)
       (getAllComponents example_env)) = [''voices'']
   \<and> fst (getCustomizedFiles example_env example_world) = Inr [''voices'']
   \<and> fst (readMetadata example_env empty_object_world) = Some (JObject None)
   \<and> fst (getCustomizedFiles example_env empty_object_world)
       = Inl (TypeError ''installedComponents'')"
proof -
  have a: "fst (readMetadata example_env example_world) = Some (JRecord example_metadata)"
    by (simp add: readMetadata_def readJSON_def fs_defs path_defs example_world_def
        example_files_def example_env_def)
  have b: "fst (getCustomizedFiles example_env example_world) = Inr [''voices'']"
    by (simp add: meta_defs fs_defs path_defs example_defs)
  have c: "fst (readMetadata example_env empty_object_world) = Some (JObject None)"
    by (simp add: readMetadata_def readJSON_def fs_defs path_defs empty_object_world_def
        example_world_def example_files_def example_env_def)
  show ?thesis
    using a b c getCustomizedFiles_exact [of example_env example_world]
      getCustomizedFiles_exact [of example_env empty_object_world]
    by simp
qed

theorem getCustomizedFiles_server_counterexample:
  "\<not> preserveOnUpdate (server_component example_env)
   \<and> fst (getCustomizedFiles example_env server_edited_world) = Inr [''server'', ''voices'']"
  by (simp add: getCustomizedFiles_def readMetadata_def readJSON_def getAllComponents_def
      server_component_def voices_component_def calculateFileHash_def server_edited_world_def
      fs_defs path_defs example_defs)

lemma is_customized_local:
  assumes "node_at w' (c_target c) = node_at w (c_target c)" and "denied w' = denied w"
  shows "is_customized E w' m c = is_customized E w m c"
  unfolding is_customized_def existsSync_def calculateFileHash_def readFileSync_def assms
  by (rule refl)

lemma cm_hash_new_entry [simp]: "cm_hash (new_component_entry E w h) = h"
  by (simp add: new_component_entry_def)

lemma update_hashes_other:
  "n \<notin> c_name ` set cs \<Longrightarrow>
   installedComponents (update_hashes E w cs m) n = installedComponents m n"
  by (induction cs arbitrary: m) (auto simp: Let_def split: option.splits)

lemma create_hashes_other:
  "n \<notin> c_name ` set cs \<Longrightarrow>
   installedComponents (create_hashes E w cs m) n = installedComponents m n"
  by (induction cs arbitrary: m) auto

lemma update_hashes_entry:
  "distinct (map c_name cs) \<Longrightarrow> c \<in> set cs \<Longrightarrow> existsSync w (c_target c) \<Longrightarrow>
   \<exists>cm. installedComponents (update_hashes E w cs m) (c_name c) = Some cm
        \<and> cm_hash cm = calculateFileHash E w (c_target c)"
proof (induction cs arbitrary: m)
  case Nil
  then show ?case by simp
next
  case (Cons a cs)
  show ?case
  proof (cases "c = a")
    case True
    then have "c_name c \<notin> c_name ` set cs" using Cons.prems(1) by auto
    then show ?thesis
      using True Cons.prems(3) by (auto simp: update_hashes_other Let_def split: option.splits)
  next
    case False
    then have "c \<in> set cs" using Cons.prems(2) by simp
    moreover have "distinct (map c_name cs)" using Cons.prems(1) by simp
    ultimately show ?thesis
      using Cons.IH Cons.prems(3) by (auto simp: Let_def split: option.splits)
  qed
qed

lemma create_hashes_entry:
  "distinct (map c_name cs) \<Longrightarrow> c \<in> set cs \<Longrightarrow> existsSync w (c_target c) \<Longrightarrow>
   \<exists>cm. installedComponents (create_hashes E w cs m) (c_name c) = Some cm
        \<and> cm_hash cm = calculateFileHash E w (c_target c)"
proof (induction cs arbitrary: m)
  case Nil
  then show ?case by simp
next
  case (Cons a cs)
  show ?case
  proof (cases "c = a")
    case True
    then have "c_name c \<notin> c_name ` set cs" using Cons.prems(1) by auto
    then show ?thesis
      using True Cons.prems(3) by (auto simp: create_hashes_other new_component_entry_def)
  next
    case False
    then have "c \<in> set cs" using Cons.prems(2) by simp
    moreover have "distinct (map c_name cs)" using Cons.prems(1) by simp
    ultimately show ?thesis
      using Cons.IH Cons.prems(3) by auto
  qed
qed

lemma distinct_component_names: "distinct (map c_name (getAllComponents E))"
  by (simp add: getAllComponents_def server_component_def voices_component_def)

lemma target_not_metadata:
  "c \<in> set (getAllComponents E) \<Longrightarrow> c_target c \<noteq> getMetadataPath E"
  by (auto simp: getAllComponents_def server_component_def voices_component_def path_defs)

lemma update_hashes_clean:
  assumes "c \<in> set (getAllComponents E)"
  shows "\<not> is_customized E w (update_hashes E w (getAllComponents E) m) c"
proof (cases "existsSync w (c_target c)")
  case True
  then show ?thesis
    using update_hashes_entry [OF distinct_component_names assms True, of E m]
    by (auto simp: is_customized_def)
next
  case False
  then show ?thesis by (simp add: is_customized_def split: option.splits)
qed

lemma create_hashes_clean:
  assumes "c \<in> set (getAllComponents E)"
  shows "\<not> is_customized E w (create_hashes E w (getAllComponents E) m) c"
proof (cases "existsSync w (c_target c)")
  case True
  then show ?thesis
    using create_hashes_entry [OF distinct_component_names assms True, of E m]
    by (auto simp: is_customized_def)
next
  case False
  then show ?thesis by (simp add: is_customized_def split: option.splits)
qed

lemma writeJSON_real:
  "writeJSON p j False w = (Inr u, w') \<Longrightarrow>
   (\<exists>mo. files w' = (files w)(p \<mapsto> File (Json j) mo)) \<and> denied w' = denied w \<and> p \<noteq> []
   \<and> loaded w' = loaded w \<and> logged w' = logged w \<and> now w' = now w"
  by (auto simp: writeJSON_def writeFileSync_def node_at_def
      split: sum.splits option.splits node.splits if_splits)

lemma written_record_clean:
  assumes wr: "writeJSON (getMetadataPath E) (JRecord m) False w1 = (Inr u, w')"
    and clean: "\<And>c. c \<in> set (getAllComponents E) \<Longrightarrow> \<not> is_customized E w1 m c"
  shows "fst (getCustomizedFiles E w') = Inr []
    \<and> (\<forall>c\<in>set (getAllComponents E). \<not> is_customized E w' m c)"
proof -
  obtain mo where f: "files w' = (files w1)(getMetadataPath E \<mapsto> File (Json (JRecord m)) mo)"
    and d: "denied w' = denied w1" and ne: "getMetadataPath E \<noteq> []"
    using writeJSON_real [OF wr] by blast
  have rd: "fst (readMetadata E w') = None \<or> fst (readMetadata E w') = Some (JRecord m)"
    using f ne
    by (auto simp: readMetadata_def readJSON_def readFileSync_def existsSync_def node_at_def Let_def)
  have "\<not> is_customized E w' m c" if c: "c \<in> set (getAllComponents E)" for c
  proof -
    have "node_at w' (c_target c) = node_at w1 (c_target c)"
      using f target_not_metadata [OF c] by (simp add: node_at_def)
    then show ?thesis using is_customized_local [OF _ d] clean [OF c] by simp
  qed
  then have all: "\<forall>c\<in>set (getAllComponents E). \<not> is_customized E w' m c"
    by blast
  then have "filter (is_customized E w' m) (getAllComponents E) = []"
    by (simp add: filter_empty_conv)
  then have "fst (getCustomizedFiles E w') = Inr []"
    using rd getCustomizedFiles_loop [of E w'] by auto
  then show ?thesis using all by simp
qed

lemma update_component_hashes_record:
  "update_component_hashes E w j = Inr (JRecord m) \<Longrightarrow>
   \<exists>m0. j = JRecord m0 \<and> m = update_hashes E w (getAllComponents E) m0"
  by (cases j) (auto simp: update_component_hashes_def split: if_splits)

lemma update_component_hashes_other:
  "update_component_hashes E w j = Inr j' \<Longrightarrow> (\<forall>m. j' \<noteq> JRecord m) \<Longrightarrow>
   \<forall>c\<in>set (getAllComponents E). \<not> existsSync w (c_target c)"
  by (cases j) (auto simp: update_component_hashes_def list_ex_iff split: if_splits)

lemma updateAfterInstall_written:
  assumes "updateAfterInstall E False isUpdate w = (Inr j, w')"
  shows "\<exists>j0. update_component_hashes E (snd (readMetadata E w)) j0 = Inr j
     \<and> writeJSON (getMetadataPath E) j False (snd (readMetadata E w)) = (Inr (), w')"
  using assms
  by (auto simp: updateAfterInstall_def updateMetadata_def Let_def
      split: prod.splits sum.splits)




section \<open>The update that has nothing to do; the supervisor's failures\<close>

text \<open>
  C9. When the installation exists, the recorded version equals the manifest's version
  and \<open>force\<close> is false, \<open>update\<close> returns success with \<open>alreadyUpToDate\<close> and the state
  it returns is the state it was given: no file, descriptor, record or supervisor entry
  has changed, and nothing was logged or waited for.
\<close>

theorem update_already_up_to_date:
  "isInstalled E w \<Longrightarrow> fst (getInstalledVersion E w) = Some (pkg_version E) \<Longrightarrow>
   \<not> opt_force opts \<Longrightarrow>
   update E opts w = (Inr U_already_up_to_date, w)
   \<and> (case fst (update E opts w) of Inr r \<Rightarrow> update_success r | Inl e \<Rightarrow> False)"
proof -
  assume i: "isInstalled E w" and v: "fst (getInstalledVersion E w) = Some (pkg_version E)"
    and f: "\<not> opt_force opts"
  obtain found w1 where r: "readMetadata E w = (found, w1)" by (cases "readMetadata E w")
  from v r obtain j where j: "found = Some j"
    by (cases found) (auto simp: getInstalledVersion_def)
  then have "w1 = w" using r readMetadata_Some by blast
  then have "getInstalledVersion E w = (Some (pkg_version E), w)"
    using r j v by (cases j) (auto simp: getInstalledVersion_def)
  then have "update E opts w = (Inr U_already_up_to_date, w)"
    using i f by (simp add: update_def Let_def)
  then show ?thesis by simp
qed

theorem update_already_up_to_date_witness:
  "update same_version_env real_run example_world = (Inr U_already_up_to_date, example_world)
   \<and> (case fst (update same_version_env real_run example_world) of
         Inr r \<Rightarrow> update_success r
       | Inl e \<Rightarrow> False)"
proof -
  have i: "isInstalled same_version_env example_world"
    by (simp add: isInstalled_def same_version_env_def fs_defs path_defs example_defs)
  have v: "fst (getInstalledVersion same_version_env example_world)
      = Some (pkg_version same_version_env)"
    by (simp add: getInstalledVersion_def same_version_env_def meta_defs fs_defs path_defs
        example_defs)
  have f: "\<not> opt_force real_run" by (simp add: example_defs)
  show ?thesis using update_already_up_to_date [OF i v f] .
qed

text \<open>
  C5 (what the code does where the claim fails). \<open>load\<close> and \<open>unload\<close> run \<open>launchctl\<close>
  through \<open>exec\<close> with \<open>ignoreError: true\<close>, so \<open>exec\<close> never throws and their \<open>catch\<close>
  blocks are never entered: when the supervisor rejects the command with an error that
  is neither of the two tolerated conditions, both still return \<open>true\<close>.
\<close>

theorem load_swallows_supervisor_failure:
  "fst (execSync (LaunchctlLoad (getLaunchAgentPath example_env)) fault_world)
     = Inl ''Load failed: 5: Input/output error''
   \<and> load example_env False fault_world = (Inr True, fault_world)
   \<and> unload example_env False fault_world = (Inr True, fault_world)"
  by (simp add: load_def unload_def exec_def execSync_def fault_world_def Let_def
      fs_defs path_defs example_defs)

section \<open>The command line\<close>

lemma lookup_command_Undefined:
  "lookup_command c = Undefined \<longleftrightarrow>
     c \<notin> set [''install'', ''update'', ''uninstall'', ''start'', ''stop'', ''restart'',
                ''status'', ''verify'']
     \<and> c \<notin> set object_prototype_names"
  by (simp add: lookup_command_def)

lemma lookup_command_Inherited:
  "lookup_command c = Inherited n \<longleftrightarrow> n = c \<and> c \<in> set object_prototype_names"
  by (auto simp: lookup_command_def object_prototype_names_def)

text \<open>
  C7 (as the code has it). When the arguments were parsed, an absent subcommand runs
  \<open>status\<close>. A subcommand that names no entry of the command table does not fall back
  to \<open>status\<close> and no handler runs. If it names nothing that the table inherits from
  \<open>Object.prototype\<close> either, the error "Unknown command" is logged and the process
  exits with code 1. If it is one of the twelve inherited names, nothing is reported as
  unknown: the inherited property is called, and the process exits with code 1 for
  \<open>__defineGetter__\<close>, \<open>__defineSetter__\<close> and \<open>__proto__\<close>, where the call throws, and with
  code 0 for the other nine. When a command of the table runs, the process exits with
  the code of its outcome, and that code is 1 exactly when the handler reported
  \<open>success === false\<close> or threw, and 0 otherwise.
\<close>

theorem main_dispatch:
  "parseArgs argv = Inr p \<Longrightarrow>
   (p_command p = None \<or> p_command p = Some [] \<longrightarrow>
      fst (main run argv w) = exit_code (fst (run Status (p_options p) w))
      \<and> files (snd (main run argv w)) = files (snd (run Status (p_options p) w)))
   \<and> (\<forall>c. p_command p = Some c \<and> c \<noteq> [] \<and> lookup_command c = Undefined \<longrightarrow>
      main run argv w = (1, warn (E_unknown_command c) w))
   \<and> (\<forall>c. p_command p = Some c \<and> c \<in> set object_prototype_names \<longrightarrow>
      main run argv w =
        (if c \<in> set [''__defineGetter__'', ''__defineSetter__'', ''__proto__'']
         then (1, warn (E_command_faulted ''TypeError'') w) else (0, w)))
   \<and> (\<forall>c k. p_command p = Some c \<and> lookup_command c = Own k \<longrightarrow>
      fst (main run argv w) = exit_code (fst (run k (p_options p) w))
      \<and> files (snd (main run argv w)) = files (snd (run k (p_options p) w)))
   \<and> (\<forall>c. lookup_command c = Undefined \<longleftrightarrow>
        c \<notin> set [''install'', ''update'', ''uninstall'', ''start'', ''stop'', ''restart'',
                   ''status'', ''verify'']
        \<and> c \<notin> set object_prototype_names)
   \<and> (\<forall>r. exit_code r = (if r = Returned (Some False) \<or> (\<exists>msg. r = Threw msg) then 1 else 0))"
proof -
  assume a: "parseArgs argv = Inr p"
  have own: "fst (main run argv w) = exit_code (fst (run k (p_options p) w))
      \<and> files (snd (main run argv w)) = files (snd (run k (p_options p) w))"
    if "lookup_command (case p_command p of None \<Rightarrow> ''status''
                        | Some c \<Rightarrow> if c = [] then ''status'' else c) = Own k" for k
    using a that
    by (cases "run k (p_options p) w"; cases "fst (run k (p_options p) w)")
       (auto simp: main_def Let_def warn_def)
  have st: "lookup_command ''status'' = Own Status" by (simp add: lookup_command_def)
  have 1: "p_command p = None \<or> p_command p = Some [] \<longrightarrow>
      fst (main run argv w) = exit_code (fst (run Status (p_options p) w))
      \<and> files (snd (main run argv w)) = files (snd (run Status (p_options p) w))"
    using own [of Status] st by auto
  have 2: "\<forall>c. p_command p = Some c \<and> c \<noteq> [] \<and> lookup_command c = Undefined \<longrightarrow>
      main run argv w = (1, warn (E_unknown_command c) w)"
    using a by (auto simp: main_def Let_def)
  have 3: "\<forall>c k. p_command p = Some c \<and> lookup_command c = Own k \<longrightarrow>
      fst (main run argv w) = exit_code (fst (run k (p_options p) w))
      \<and> files (snd (main run argv w)) = files (snd (run k (p_options p) w))"
  proof (intro allI impI)
    fix c k assume h: "p_command p = Some c \<and> lookup_command c = Own k"
    show "fst (main run argv w) = exit_code (fst (run k (p_options p) w))
      \<and> files (snd (main run argv w)) = files (snd (run k (p_options p) w))"
    proof (cases "c = []")
      case True
      then have False using h by (simp add: lookup_command_def split: if_splits)
      then show ?thesis by simp
    next
      case False
      then show ?thesis using own [of k] h by simp
    qed
  qed
  have 4: "\<forall>r. exit_code r = (if r = Returned (Some False) \<or> (\<exists>msg. r = Threw msg) then 1 else 0)"
    by (auto simp: exit_code_def split: outcome.splits)
  have 5: "\<forall>c. p_command p = Some c \<and> c \<in> set object_prototype_names \<longrightarrow>
      main run argv w =
        (if c \<in> set [''__defineGetter__'', ''__defineSetter__'', ''__proto__'']
         then (1, warn (E_command_faulted ''TypeError'') w) else (0, w))"
  proof (intro allI impI)
    fix c assume h: "p_command p = Some c \<and> c \<in> set object_prototype_names"
    then have ne: "c \<noteq> []" by (auto simp: object_prototype_names_def)
    have l: "lookup_command c = Inherited c" using h lookup_command_Inherited by blast
    show "main run argv w =
        (if c \<in> set [''__defineGetter__'', ''__defineSetter__'', ''__proto__'']
         then (1, warn (E_command_faulted ''TypeError'') w) else (0, w))"
      using a h ne l by (simp add: main_def Let_def call_inherited_def exit_code_def)
  qed
  have 6: "\<forall>c. lookup_command c = Undefined \<longleftrightarrow>
        c \<notin> set [''install'', ''update'', ''uninstall'', ''start'', ''stop'', ''restart'',
                   ''status'', ''verify'']
        \<and> c \<notin> set object_prototype_names"
    using lookup_command_Undefined by blast
  show ?thesis using 1 2 3 4 5 6 by blast
qed

theorem main_dispatch_witness:
  "main succeeding_handlers [''--verbose''] example_world = (0, example_world)
   \<and> main succeeding_handlers [''frobnicate''] example_world
       = (1, warn (E_unknown_command ''frobnicate'') example_world)
   \<and> main succeeding_handlers [''toString''] example_world = (0, example_world)
   \<and> main succeeding_handlers [''__proto__''] example_world
       = (1, warn (E_command_faulted ''TypeError'') example_world)
   \<and> fst (main succeeding_handlers [''update'', ''--dry-run''] example_world) = 0"
proof -
  have p1: "parseArgs [''--verbose''] = Inr \<lparr>p_command = None,
      p_options = default_options\<lparr>opt_verbose := True\<rparr>\<rparr>"
    by (simp add: parseArgs_def startsWith_def)
  have p2: "parseArgs [''frobnicate''] = Inr \<lparr>p_command = Some ''frobnicate'',
      p_options = default_options\<rparr>"
    by (simp add: parseArgs_def startsWith_def)
  have p3: "parseArgs [''update'', ''--dry-run''] = Inr \<lparr>p_command = Some ''update'',
      p_options = default_options\<lparr>opt_dryRun := True\<rparr>\<rparr>"
    by (simp add: parseArgs_def startsWith_def)
  have p4: "parseArgs [''toString''] = Inr \<lparr>p_command = Some ''toString'',
      p_options = default_options\<rparr>"
    by (simp add: parseArgs_def startsWith_def)
  have p5: "parseArgs [''__proto__''] = Inr \<lparr>p_command = Some ''__proto__'',
      p_options = default_options\<rparr>"
    by (simp add: parseArgs_def startsWith_def)
  have u: "lookup_command ''frobnicate'' = Undefined" "lookup_command ''update'' = Own Update"
    "''toString'' \<in> set object_prototype_names" "''__proto__'' \<in> set object_prototype_names"
    by (simp_all add: lookup_command_def object_prototype_names_def)
  have m1: "main succeeding_handlers [''--verbose''] example_world = (0, example_world)"
    using p1 by (simp add: main_def lookup_command_def succeeding_handlers_def exit_code_def)
  have m2: "main succeeding_handlers [''frobnicate''] example_world
       = (1, warn (E_unknown_command ''frobnicate'') example_world)"
    using u main_dispatch [OF p2, of succeeding_handlers example_world] by simp
  have m3: "fst (main succeeding_handlers [''update'', ''--dry-run''] example_world) = 0"
    using u main_dispatch [OF p3, of succeeding_handlers example_world]
    by (simp add: succeeding_handlers_def exit_code_def)
  have m4: "main succeeding_handlers [''toString''] example_world = (0, example_world)"
    using u main_dispatch [OF p4, of succeeding_handlers example_world] by simp
  have m5: "main succeeding_handlers [''__proto__''] example_world
       = (1, warn (E_command_faulted ''TypeError'') example_world)"
    using u main_dispatch [OF p5, of succeeding_handlers example_world] by simp
  show ?thesis using m1 m2 m3 m4 m5 by simp
qed

theorem main_unknown_command_counterexample:
  "fst (succeeding_handlers Status default_options example_world) = Returned (Some True)
   \<and> main succeeding_handlers [''frobnicate''] example_world
       = (1, warn (E_unknown_command ''frobnicate'') example_world)"
  by (simp add: main_def parseArgs_def startsWith_def lookup_command_def
      object_prototype_names_def succeeding_handlers_def)

section \<open>The backup that fails\<close>

lemmas update_defs =
  update_def update_components.simps update_one_def stop_service_def update_plist_def
  update_record_def restart_service_def isInstalled_def getInstalledVersion_def
  updateAfterInstall_def update_component_hashes_def update_hashes.simps
  customized_loop.simps resolveSourcePath_def
  copyFile_def ensureDirectoryExists_def backupFile_def backup_path_def path_append_def
  backup_timestamp_def createPlist_def generatePlist_def getBunPath_def isRunning_def
  execOutput_def execSync_def service_port_def

lemma backupFile_cases:
  "backupFile E filePath dryRun w =
     (if \<not> existsSync w filePath then (Inr None, w)
      else if dryRun then (Inr (Some (backup_path E w filePath)), w)
      else (case copyFileSync w filePath (backup_path E w filePath) of
              (None, w') \<Rightarrow> (Inr (Some (backup_path E w filePath)), w')
            | (Some e, w') \<Rightarrow> (Inr None, warn (W_backup_failed filePath e) w')))"
  by (simp add: backupFile_def Let_def)

text \<open>
  C10. \<open>backupFile\<close> never raises. When the file exists and the backup copy fails, it logs
  the warning "Failed to backup" and returns \<open>null\<close>; and \<open>update\<close>, for a customized
  component that is not preserved, then goes on to resolve the source and copy it over
  the target all the same, although no backup file was produced.
\<close>

theorem backupFile_never_raises:
  "(\<exists>r. fst (backupFile E filePath dryRun w) = Inr r)
   \<and> (existsSync w filePath
        \<and> copyFileSync w filePath (backup_path E w filePath) = (Some oe, w0) \<longrightarrow>
        backupFile E filePath False w = (Inr None, warn (W_backup_failed filePath oe) w0))
   \<and> (existsSync w (c_target c)
        \<and> copyFileSync w (c_target c) (backup_path E w (c_target c)) = (Some oe, w0) \<longrightarrow>
        update_one E False True c w =
          (let w1 = warn (W_backup_failed (c_target c) oe) w0
           in case resolveSourcePath E w1 (c_source c) of
                Inl e \<Rightarrow> (Inl e, w1)
              | Inr sourcePath \<Rightarrow> copyFile sourcePath (c_target c) False True w1))"
proof -
  have 1: "\<exists>r. fst (backupFile E filePath dryRun w) = Inr r"
    by (simp add: backupFile_cases split: prod.splits option.splits)
  have 2: "backupFile E p False w = (Inr None, warn (W_backup_failed p oe) w0)"
    if "existsSync w p \<and> copyFileSync w p (backup_path E w p) = (Some oe, w0)" for p
    using that by (simp add: backupFile_cases)
  have 3: "update_one E False True c w =
          (let w1 = warn (W_backup_failed (c_target c) oe) w0
           in case resolveSourcePath E w1 (c_source c) of
                Inl e \<Rightarrow> (Inl e, w1)
              | Inr sourcePath \<Rightarrow> copyFile sourcePath (c_target c) False True w1)"
    if "existsSync w (c_target c)
        \<and> copyFileSync w (c_target c) (backup_path E w (c_target c)) = (Some oe, w0)"
    using 2 [OF that] by (simp add: update_one_def Let_def)
  show ?thesis using 1 2 3 by blast
qed

theorem backupFile_never_raises_witness:
  "backupFile example_env (getServerPath example_env) False backup_refused_world
     = (Inr None,
        warn (W_backup_failed (getServerPath example_env) EACCES) backup_refused_world)
   \<and> (case update example_env real_run backup_refused_world of
         (r, w') \<Rightarrow>
           r = Inr (U_updated (Some ''1.0.0'') ''1.1.0'' [''server''] [''voices''] False)
           \<and> node_at w' (getServerPath example_env) = Some (File (Raw ''server v2'') 493)
           \<and> \<not> existsSync w'
                 (backup_path example_env backup_refused_world (getServerPath example_env))
           \<and> W_backup_failed (getServerPath example_env) EACCES \<in> set (logged w'))"
proof -
  have e: "existsSync backup_refused_world (getServerPath example_env)"
    by (simp add: backup_refused_world_def server_edited_world_def fs_defs path_defs
        example_defs)
  have c: "copyFileSync backup_refused_world (getServerPath example_env)
         (backup_path example_env backup_refused_world (getServerPath example_env))
       = (Some EACCES, backup_refused_world)"
    by (simp add: backup_refused_world_def server_edited_world_def backup_path_def
        path_append_def backup_timestamp_def fs_defs path_defs example_defs)
  have u: "case update example_env real_run backup_refused_world of
         (r, w') \<Rightarrow>
           r = Inr (U_updated (Some ''1.0.0'') ''1.1.0'' [''server''] [''voices''] False)
           \<and> node_at w' (getServerPath example_env) = Some (File (Raw ''server v2'') 493)
           \<and> \<not> existsSync w'
                 (backup_path example_env backup_refused_world (getServerPath example_env))
           \<and> W_backup_failed (getServerPath example_env) EACCES \<in> set (logged w')"
    by (simp add: update_defs meta_defs backup_refused_world_def server_edited_world_def Let_def
        fs_defs path_defs example_defs)
  show ?thesis
    using e c u
      backupFile_never_raises [of example_env "getServerPath example_env" False
        backup_refused_world EACCES backup_refused_world "server_component example_env"]
    by simp
qed

section \<open>Waiting for the daemon\<close>

lemma same_state_refl [simp]: "same_state w w"
  by (simp add: same_state_def)

lemma same_state_trans: "same_state a b \<Longrightarrow> same_state b c \<Longrightarrow> same_state a c"
  by (simp add: same_state_def)

lemma same_state_warn [simp]: "same_state w (warn e w')  = same_state w w'"
  by (simp add: same_state_def warn_def)

lemma same_state_sleep [simp]: "same_state w (sleep n w') = same_state w w'"
  by (simp add: same_state_def sleep_def)

lemma execOutput_probe_frame:
  "c = Lsof n \<or> c = CurlHealth n \<or> c = LaunchctlListGrep s \<Longrightarrow>
   same_state w (snd (execOutput c d i w)) \<and> logged (snd (execOutput c d i w)) = logged w
   \<and> daemon (snd (execOutput c d i w)) = daemon w"
  by (auto simp: execOutput_def execSync_def same_state_def Let_def split: option.splits if_splits)

lemma isRunning_frame:
  "same_state w (snd (isRunning E w)) \<and> logged (snd (isRunning E w)) = logged w
   \<and> daemon (snd (isRunning E w)) = daemon w"
proof -
  let ?w1 = "snd (execOutput (Lsof service_port) False True w)"
  have a: "same_state w ?w1 \<and> logged ?w1 = logged w \<and> daemon ?w1 = daemon w"
    using execOutput_probe_frame [of "Lsof service_port" service_port undefined w False True]
    by simp
  let ?w2 = "snd (execOutput (CurlHealth service_port) False True ?w1)"
  have b: "same_state ?w1 ?w2 \<and> logged ?w2 = logged ?w1 \<and> daemon ?w2 = daemon ?w1"
    using execOutput_probe_frame [of "CurlHealth service_port" service_port undefined ?w1
        False True]
    by simp
  have "snd (isRunning E w) = ?w1 \<or> snd (isRunning E w) = ?w2"
    by (auto simp: isRunning_def split: prod.splits sum.splits)
  then show ?thesis using a b same_state_trans by auto
qed

text \<open>The loop, by its own induction rule.\<close>

lemma waitForStart_loop_frame:
  "same_state w (snd (waitForStart_loop E s t w))
   \<and> logged (snd (waitForStart_loop E s t w)) = logged w
   \<and> daemon (snd (waitForStart_loop E s t w)) = daemon w
   \<and> now w \<le> now (snd (waitForStart_loop E s t w))"
proof (induction E s t w rule: waitForStart_loop.induct)
  case (1 E s t w)
  show ?case
  proof (cases "int (now w) - int s < t")
    case False
    then show ?thesis by simp
  next
    case True
    obtain r w1 where p: "isRunning E w = (r, w1)" by (cases "isRunning E w")
    have f: "same_state w w1 \<and> logged w1 = logged w \<and> daemon w1 = daemon w \<and> now w \<le> now w1"
      using isRunning_frame [of w E] isRunning_now_mono [of w E] p by simp
    show ?thesis
    proof (cases r)
      case True
      then show ?thesis using \<open>int (now w) - int s < t\<close> p f by simp
    next
      case False
      have ih: "same_state (sleep 1000 w1) (snd (waitForStart_loop E s t (sleep 1000 w1)))
         \<and> logged (snd (waitForStart_loop E s t (sleep 1000 w1))) = logged (sleep 1000 w1)
         \<and> daemon (snd (waitForStart_loop E s t (sleep 1000 w1))) = daemon (sleep 1000 w1)
         \<and> now (sleep 1000 w1) \<le> now (snd (waitForStart_loop E s t (sleep 1000 w1)))"
        using "1.IH" [OF True p [symmetric] False] .
      have eq: "waitForStart_loop E s t w = waitForStart_loop E s t (sleep 1000 w1)"
        using True p False by simp
      show ?thesis
        unfolding eq using ih f
        by (auto simp: same_state_def sleep_def)
    qed
  qed
qed

lemma waitForStart_loop_false:
  "waitForStart_loop E s t w = (False, w') \<Longrightarrow> t \<le> int (now w') - int s"
proof (induction E s t w rule: waitForStart_loop.induct)
  case (1 E s t w)
  show ?case
  proof (cases "int (now w) - int s < t")
    case False
    then show ?thesis using "1.prems" by simp
  next
    case True
    obtain r w1 where p: "isRunning E w = (r, w1)" by (cases "isRunning E w")
    show ?thesis
    proof (cases r)
      case True
      then show ?thesis using \<open>int (now w) - int s < t\<close> p "1.prems" by simp
    next
      case False
      have "waitForStart_loop E s t (sleep 1000 w1) = (False, w')"
        using True p False "1.prems" by simp
      then show ?thesis using "1.IH" [OF True p [symmetric] False] by simp
    qed
  qed
qed

lemma waitForStart_loop_true:
  "waitForStart_loop E s t w = (True, w') \<Longrightarrow> \<exists>w0. isRunning E w0 = (True, w')"
proof (induction E s t w rule: waitForStart_loop.induct)
  case (1 E s t w)
  show ?case
  proof (cases "int (now w) - int s < t")
    case False
    then show ?thesis using "1.prems" by simp
  next
    case True
    obtain r w1 where p: "isRunning E w = (r, w1)" by (cases "isRunning E w")
    show ?thesis
    proof (cases r)
      case True
      then show ?thesis using \<open>int (now w) - int s < t\<close> p "1.prems" by auto
    next
      case False
      have "waitForStart_loop E s t (sleep 1000 w1) = (True, w')"
        using True p False "1.prems" by simp
      then show ?thesis using "1.IH" [OF True p [symmetric] False] by simp
    qed
  qed
qed

lemma waitForStart_loop_upper:
  assumes d: "\<And>w0. daemon w0 = daemon w \<Longrightarrow> now (snd (isRunning E w0)) \<le> now w0 + d"
  shows "waitForStart_loop E s t w = (False, w') \<Longrightarrow>
         w' = w \<or> int (now w') - int s < t + 1000 + int d"
  using d
proof (induction E s t w rule: waitForStart_loop.induct)
  case (1 E s t w)
  show ?case
  proof (cases "int (now w) - int s < t")
    case False
    then show ?thesis using "1.prems" by simp
  next
    case True
    obtain r w1 where p: "isRunning E w = (r, w1)" by (cases "isRunning E w")
    have c: "now w1 \<le> now w + d" using "1.prems"(2) [of w] p by simp
    have dm: "daemon w1 = daemon w" using isRunning_frame [of w E] p by simp
    show ?thesis
    proof (cases r)
      case True
      then show ?thesis using \<open>int (now w) - int s < t\<close> p "1.prems" by simp
    next
      case False
      have e: "waitForStart_loop E s t (sleep 1000 w1) = (False, w')"
        using True p False "1.prems" by simp
      have pre: "\<And>w0. daemon w0 = daemon (sleep 1000 w1) \<Longrightarrow>
          now (snd (isRunning E w0)) \<le> now w0 + d"
        using "1.prems"(2) dm by (simp add: sleep_def)
      have "w' = sleep 1000 w1 \<or> int (now w') - int s < t + 1000 + int d"
        using "1.IH" [OF True p [symmetric] False e pre] .
      then show ?thesis
        using c True by (auto simp: sleep_def)
    qed
  qed
qed

lemma poll_world_shift:
  "poll_world E w (Suc k) = poll_world E (sleep 1000 (snd (isRunning E w))) k"
  by (induction k) simp_all

text \<open>
  The loop ends at the first poll that either starts too late or whose probe succeeds,
  having started every earlier poll in time and seen its probe fail.
\<close>

lemma waitForStart_loop_polls:
  "waitForStart_loop E s t w = (r, w') \<Longrightarrow>
   \<exists>k. (\<forall>j<k. int (now (poll_world E w j)) - int s < t
               \<and> \<not> fst (isRunning E (poll_world E w j)))
      \<and> (if r then int (now (poll_world E w k)) - int s < t
                 \<and> fst (isRunning E (poll_world E w k))
                 \<and> w' = snd (isRunning E (poll_world E w k))
          else \<not> int (now (poll_world E w k)) - int s < t \<and> w' = poll_world E w k)"
proof (induction E s t w rule: waitForStart_loop.induct)
  case (1 E s t w)
  show ?case
  proof (cases "int (now w) - int s < t")
    case False
    then have "r = False \<and> w' = w" using "1.prems" by simp
    then show ?thesis using False by (intro exI [of _ 0]) simp
  next
    case True
    obtain p w1 where p: "isRunning E w = (p, w1)" by (cases "isRunning E w")
    show ?thesis
    proof (cases p)
      case True
      then have "r = True \<and> w' = w1" using \<open>int (now w) - int s < t\<close> p "1.prems" by simp
      then show ?thesis using \<open>int (now w) - int s < t\<close> p True by (intro exI [of _ 0]) simp
    next
      case False
      let ?w2 = "sleep 1000 w1"
      have e: "waitForStart_loop E s t ?w2 = (r, w')"
        using True p False "1.prems" by simp
      obtain k where k: "\<forall>j<k. int (now (poll_world E ?w2 j)) - int s < t
               \<and> \<not> fst (isRunning E (poll_world E ?w2 j))"
        and kk: "if r then int (now (poll_world E ?w2 k)) - int s < t
                 \<and> fst (isRunning E (poll_world E ?w2 k))
                 \<and> w' = snd (isRunning E (poll_world E ?w2 k))
          else \<not> int (now (poll_world E ?w2 k)) - int s < t \<and> w' = poll_world E ?w2 k"
        using "1.IH" [OF True p [symmetric] False e] by blast
      have sh: "\<And>j. poll_world E w (Suc j) = poll_world E ?w2 j"
        using poll_world_shift [of E w] p by simp
      have a: "\<forall>j<Suc k. int (now (poll_world E w j)) - int s < t
               \<and> \<not> fst (isRunning E (poll_world E w j))"
      proof (intro allI impI)
        fix j assume j: "j < Suc k"
        show "int (now (poll_world E w j)) - int s < t \<and> \<not> fst (isRunning E (poll_world E w j))"
        proof (cases j)
          case 0
          then show ?thesis using True p False by simp
        next
          case (Suc i)
          then have "i < k" using j by simp
          then show ?thesis using k Suc sh by simp
        qed
      qed
      have b: "if r then int (now (poll_world E w (Suc k))) - int s < t
                 \<and> fst (isRunning E (poll_world E w (Suc k)))
                 \<and> w' = snd (isRunning E (poll_world E w (Suc k)))
          else \<not> int (now (poll_world E w (Suc k))) - int s < t
               \<and> w' = poll_world E w (Suc k)"
        using kk unfolding sh .
      show ?thesis using a b by (intro exI [of _ "Suc k"]) blast
    qed
  qed
qed

text \<open>
  C6 (as the code has it). \<open>waitForStart\<close> always returns, and it never touches the
  files or the supervisor: it only probes, and sleeps one second after each probe that
  failed. It ends at the first poll that starts after the timeout has elapsed, with
  \<open>false\<close>, or whose probe succeeds, with \<open>true\<close>: so it returns \<open>true\<close> exactly when the probe
  of a poll succeeds that started in time, as all polls before it did. When it returns
  \<open>false\<close>, at least \<open>T\<close> seconds have passed. The time passed is not bounded by \<open>T\<close> plus one
  poll interval: the clock is read only before each probe, so the bound is \<open>T\<close> plus one
  poll interval plus the time one probe takes (\<open>d\<close> milliseconds, when no probe takes
  longer).
\<close>

theorem waitForStart_bounds:
  "waitForStart E T w = (r, w') \<Longrightarrow>
     same_state w w' \<and> logged w' = logged w
     \<and> (\<exists>k. (\<forall>j<k. in_time E w T j \<and> \<not> probe_succeeds E w j)
           \<and> (if r then in_time E w T k \<and> probe_succeeds E w k
                        \<and> w' = snd (isRunning E (poll_world E w k))
               else \<not> in_time E w T k \<and> w' = poll_world E w k))
     \<and> (\<forall>k. (\<forall>j<k. in_time E w T j \<and> \<not> probe_succeeds E w j)
             \<and> in_time E w T k \<and> probe_succeeds E w k \<longrightarrow>
           r \<and> w' = snd (isRunning E (poll_world E w k)))
     \<and> (\<not> r \<longrightarrow> T * 1000 \<le> int (now w') - int (now w))
     \<and> (\<not> r \<and> (\<forall>w0. daemon w0 = daemon w \<longrightarrow> now (snd (isRunning E w0)) \<le> now w0 + d) \<longrightarrow>
          int (now w') - int (now w) < max 0 (T * 1000) + 1000 + int d)"
proof -
  assume a: "waitForStart E T w = (r, w')"
  then have l: "waitForStart_loop E (now w) (T * 1000) w = (r, w')"
    by (simp add: waitForStart_def)
  have 1: "same_state w w' \<and> logged w' = logged w"
    using waitForStart_loop_frame [of w E "now w" "T * 1000"] l by simp
  obtain k0 where k0: "\<forall>j<k0. in_time E w T j \<and> \<not> probe_succeeds E w j"
    and e0: "if r then in_time E w T k0 \<and> probe_succeeds E w k0
                        \<and> w' = snd (isRunning E (poll_world E w k0))
             else \<not> in_time E w T k0 \<and> w' = poll_world E w k0"
    using waitForStart_loop_polls [OF l] unfolding in_time_def probe_succeeds_def by blast
  have 2: "\<exists>k. (\<forall>j<k. in_time E w T j \<and> \<not> probe_succeeds E w j)
           \<and> (if r then in_time E w T k \<and> probe_succeeds E w k
                        \<and> w' = snd (isRunning E (poll_world E w k))
               else \<not> in_time E w T k \<and> w' = poll_world E w k)"
    using k0 e0 by blast
  have 3: "\<forall>k. (\<forall>j<k. in_time E w T j \<and> \<not> probe_succeeds E w j)
             \<and> in_time E w T k \<and> probe_succeeds E w k \<longrightarrow>
           r \<and> w' = snd (isRunning E (poll_world E w k))"
  proof (intro allI impI)
    fix k
    assume h: "(\<forall>j<k. in_time E w T j \<and> \<not> probe_succeeds E w j)
             \<and> in_time E w T k \<and> probe_succeeds E w k"
    have "\<not> k0 < k" using h e0 by (cases r) auto
    moreover have "\<not> k < k0" using h k0 by auto
    ultimately have "k0 = k" by simp
    then show "r \<and> w' = snd (isRunning E (poll_world E w k))"
      using h e0 by (cases r) auto
  qed
  have 4: "\<not> r \<longrightarrow> T * 1000 \<le> int (now w') - int (now w)"
    using waitForStart_loop_false [of E "now w" "T * 1000" w w'] l by auto
  have 5: "int (now w') - int (now w) < max 0 (T * 1000) + 1000 + int d"
    if n: "\<not> r" and d: "\<forall>w0. daemon w0 = daemon w \<longrightarrow> now (snd (isRunning E w0)) \<le> now w0 + d"
  proof -
    have "w' = w \<or> int (now w') - int (now w) < T * 1000 + 1000 + int d"
      using waitForStart_loop_upper [of w E d "now w" "T * 1000" w'] l n d by auto
    then show ?thesis by auto
  qed
  show ?thesis using 1 2 3 4 5 by blast
qed

lemmas probe_defs =
  waitForStart_def isRunning_def execOutput_def execSync_def sleep_def service_port_def
  trim_def is_space_def str_includes_def

text \<open>
  A daemon that never comes up, with a timeout of two seconds; and a daemon that comes
  up after one second, which the second poll finds.
\<close>

theorem waitForStart_bounds_witness:
  "fst (waitForStart example_env 2 example_world) = False
   \<and> same_state example_world (snd (waitForStart example_env 2 example_world))
   \<and> 2 * 1000 \<le> int (now (snd (waitForStart example_env 2 example_world)))
                   - int (now example_world)
   \<and> int (now (snd (waitForStart example_env 2 example_world))) - int (now example_world)
       < max 0 (2 * 1000) + 1000 + int 0
   \<and> in_time example_env late_world 5 0 \<and> \<not> probe_succeeds example_env late_world 0
   \<and> in_time example_env late_world 5 1 \<and> probe_succeeds example_env late_world 1
   \<and> waitForStart example_env 5 late_world = (True, late_world\<lparr>now := 1030\<rparr>)"
proof -
  have e: "waitForStart example_env 2 example_world = (False, example_world\<lparr>now := 2000\<rparr>)"
    by (simp add: probe_defs Let_def example_defs)
  have d: "\<forall>w0. daemon w0 = daemon example_world \<longrightarrow>
      now (snd (isRunning example_env w0)) \<le> now w0 + 0"
    by (simp add: probe_defs Let_def example_defs)
  have a: "same_state example_world (example_world\<lparr>now := 2000\<rparr>)
     \<and> 2 * 1000 \<le> int (now (example_world\<lparr>now := 2000\<rparr>)) - int (now example_world)
     \<and> int (now (example_world\<lparr>now := 2000\<rparr>)) - int (now example_world)
         < max 0 (2 * 1000) + 1000 + int 0"
    using d waitForStart_bounds [OF e, of 0] by simp
  have p0: "isRunning example_env late_world = (False, late_world)"
    by (simp add: probe_defs late_world_def Let_def example_defs)
  have p1: "isRunning example_env (late_world\<lparr>now := 1000\<rparr>)
      = (True, late_world\<lparr>now := 1030\<rparr>)"
    by (simp add: probe_defs late_world_def Let_def example_defs)
  have w1: "poll_world example_env late_world (Suc 0) = late_world\<lparr>now := 1000\<rparr>"
    using p0 by (simp add: sleep_def late_world_def example_defs)
  have polls: "(\<forall>j<Suc 0. in_time example_env late_world 5 j
                 \<and> \<not> probe_succeeds example_env late_world j)
      \<and> in_time example_env late_world 5 (Suc 0) \<and> probe_succeeds example_env late_world (Suc 0)"
    using p0 p1 w1 by (simp add: in_time_def probe_succeeds_def late_world_def example_defs)
  obtain r w' where l: "waitForStart example_env 5 late_world = (r, w')"
    by (cases "waitForStart example_env 5 late_world")
  have "r \<and> w' = snd (isRunning example_env (poll_world example_env late_world (Suc 0)))"
    using polls waitForStart_bounds [OF l, of 0] by blast
  then have b: "waitForStart example_env 5 late_world = (True, late_world\<lparr>now := 1030\<rparr>)"
    using l p1 w1 by simp
  show ?thesis using a b polls by (simp add: e)
qed

theorem waitForStart_upper_bound_counterexample:
  "fst (waitForStart example_env 1 hung_world) = False
   \<and> 1 * 1000 + 1000
       < int (now (snd (waitForStart example_env 1 hung_world))) - int (now hung_world)"
proof -
  have "waitForStart example_env 1 hung_world = (False, hung_world\<lparr>now := 3000\<rparr>)"
    by (simp add: probe_defs hung_world_def Let_def example_defs)
  then show ?thesis by (simp add: hung_world_def example_defs)
qed

section \<open>Dry runs\<close>

lemma same_state_isRunning [simp]: "same_state w (snd (isRunning E w')) = same_state w w'"
  using isRunning_frame [of w' E] by (auto simp: same_state_def)

lemma same_state_isLoaded [simp]: "same_state w (snd (isLoaded E w')) = same_state w w'"
  using execOutput_probe_frame [of "LaunchctlListGrep service_name" 0 service_name w' False True]
  by (auto simp: isLoaded_def same_state_def split: prod.splits sum.splits)

lemma same_state_getStatus [simp]: "same_state w (snd (getStatus E w')) = same_state w w'"
  by (simp add: getStatus_def case_prod_beta)

lemma same_state_readMetadata [simp]: "same_state w (snd (readMetadata E w')) = same_state w w'"
  by (auto simp: readMetadata_def Let_def split: sum.splits)

lemma same_state_getInstalledVersion [simp]:
  "same_state w (snd (getInstalledVersion E w')) = same_state w w'"
  by (simp add: getInstalledVersion_def case_prod_beta split: option.splits json.splits)

lemma same_state_getCustomizedFiles [simp]:
  "same_state w (snd (getCustomizedFiles E w')) = same_state w w'"
  by (simp add: getCustomizedFiles_def case_prod_beta
      split: option.splits json.splits list.splits)

lemma dry_copyFile [simp]: "copyFile s t True ov w = (Inr True, w)"
  by (simp add: copyFile_def)

lemma dry_unload [simp]: "snd (unload E True w) = w"
  by (simp add: unload_def Let_def)

lemma dry_load [simp]: "snd (load E True w) = w"
  by (simp add: load_def Let_def)

lemma dry_createPlist [simp]: "createPlist E True w = (Inr True, w)"
  by (simp add: createPlist_def Let_def)

lemma dry_removePlist [simp]: "snd (removePlist E True w) = w"
  by (simp add: removePlist_def Let_def)

lemma dry_removeFile [simp]: "removeFile p True w = (Inr (existsSync w p), w)"
  by (simp add: removeFile_def)

lemma dry_removeDirectory [simp]: "removeDirectory p True w = (Inr (existsSync w p), w)"
  by (simp add: removeDirectory_def)

lemma dry_ensureDirectoryExists [simp]: "snd (ensureDirectoryExists d True w) = w"
  by (simp add: ensureDirectoryExists_def)

lemma dry_backupFile:
  "backupFile E p True w = (Inr (if existsSync w p then Some (backup_path E w p) else None), w)"
  by (simp add: backupFile_def Let_def)

lemma dry_updateAfterInstall [simp]:
  "same_state w (snd (updateAfterInstall E True u w')) = same_state w w'"
  by (simp add: updateAfterInstall_def Let_def case_prod_beta split: sum.splits)

lemma dry_createMetadata [simp]: "snd (createMetadata E True w) = w"
  by (simp add: createMetadata_def Let_def)

lemma dry_update_one: "same_state w (snd (update_one E True cu c w')) = same_state w w'"
  by (simp add: update_one_def split: sum.splits)

lemma dry_update_components [simp]:
  "same_state w (snd (update_components E True cust cs u p w')) = same_state w w'"
proof (induction cs arbitrary: u p w')
  case Nil
  then show ?case by simp
next
  case (Cons c cs)
  show ?case
    using dry_update_one [of w E "c_name c \<in> set cust" c w']
    by (auto simp: Let_def Cons.IH split: prod.splits sum.splits)
qed

lemma dry_stop_service [simp]: "stop_service E True w = w"
  by (simp add: stop_service_def unload_def Let_def)

lemma dry_update:
  "opt_dryRun opts \<Longrightarrow> same_state w (snd (update E opts w))"
  by (simp add: update_def Let_def case_prod_beta update_plist_def update_record_def
      restart_service_def split: sum.splits)

lemma dry_start: "opt_dryRun opts \<Longrightarrow> same_state w (snd (start E opts w))"
  by (simp add: start_def Let_def case_prod_beta split: sum.splits)

lemma dry_stop: "opt_dryRun opts \<Longrightarrow> same_state w (snd (stop E opts w))"
  by (simp add: stop_def Let_def case_prod_beta split: sum.splits)

lemma dry_start_from: "opt_dryRun opts \<Longrightarrow> same_state w (snd (start E opts w')) = same_state w w'"
  by (simp add: start_def Let_def case_prod_beta split: sum.splits)

lemma dry_restart: "opt_dryRun opts \<Longrightarrow> same_state w (snd (restart E opts w))"
  using dry_stop [of opts w E]
  by (simp add: restart_def Let_def case_prod_beta dry_start_from)

lemma dry_uninstall: "opt_dryRun opts \<Longrightarrow> same_state w (snd (uninstall E opts w))"
  by (simp add: uninstall_def Let_def case_prod_beta remove_descriptor_def
      remove_installation_def remove_log_def split: sum.splits)

lemma real_removeFile:
  "removeFile p False w = (Inr v, w') \<Longrightarrow> fst (removeFile p True w) = Inr v"
  by (auto simp: removeFile_def split: if_splits sum.splits)

lemma real_removeDirectory:
  "removeDirectory p False w = (Inr v, w') \<Longrightarrow> fst (removeDirectory p True w) = Inr v"
  by (auto simp: removeDirectory_def split: if_splits sum.splits)

lemma real_backupFile:
  "backupFile E p False w = (Inr (Some b), w') \<Longrightarrow> fst (backupFile E p True w) = Inr (Some b)"
  by (auto simp: backupFile_def Let_def split: if_splits prod.splits option.splits)

text \<open>The installer: everything after the environment validation is gated.\<close>

lemma same_state_display [simp]:
  "same_state w (displayEnvironmentCheck r w') = same_state w w'"
  by (simp add: displayEnvironmentCheck_def Let_def split: option.splits sum.splits)

lemma dry_install_one: "same_state w (snd (install_one E True c w')) = same_state w w'"
  by (simp add: install_one_def split: sum.splits)

lemma dry_install_components [simp]:
  "same_state w (snd (install_components E True cs i w')) = same_state w w'"
proof (induction cs arbitrary: i w')
  case Nil
  then show ?case by simp
next
  case (Cons c cs)
  show ?case
    using dry_install_one [of w E c w']
    by (auto simp: Cons.IH split: prod.splits sum.splits)
qed

lemma dry_install_start [simp]:
  "same_state w (install_start E True w') = same_state w w'"
proof -
  have "snd (load E True w') = w'" by simp
  then show ?thesis
    by (cases "load E True w'") (auto simp: install_start_def split: sum.splits)
qed

lemma dry_install_record [simp]: "install_record E True w = w"
proof -
  have "snd (createMetadata E True w) = w" by simp
  moreover have "\<exists>m. fst (createMetadata E True w) = Inr m"
    by (simp add: createMetadata_def Let_def)
  ultimately show ?thesis
    by (cases "createMetadata E True w") (auto simp: install_record_def)
qed

lemma dry_install:
  "opt_dryRun opts \<Longrightarrow>
   same_state (if isInstalled E w \<and> \<not> opt_force opts then w else snd (validateEnvironment E w))
     (snd (install E opts w))"
  by (simp add: install_def Let_def case_prod_beta split: sum.splits)

text \<open>The environment validation: what \<open>checkDirectoryPermissions\<close> does to the state.\<close>

lemma writeFileSync_frame:
  "writeFileSync w p c = Inr w' \<Longrightarrow>
   denied w' = denied w \<and> loaded w' = loaded w \<and> launchctl_fault w' = launchctl_fault w
   \<and> (\<forall>q. q \<noteq> p \<longrightarrow> node_at w' q = node_at w q)"
  by (auto simp: writeFileSync_def node_at_def split: option.splits node.splits if_splits)

lemma unlinkSync_frame:
  "unlinkSync w p = Inr w' \<Longrightarrow>
   denied w' = denied w \<and> loaded w' = loaded w \<and> launchctl_fault w' = launchctl_fault w
   \<and> (\<forall>q. q \<noteq> p \<longrightarrow> node_at w' q = node_at w q)"
  by (auto simp: unlinkSync_def node_at_def split: option.splits node.splits if_splits)

lemma checkDirectoryPermissions_frame:
  "denied (snd (checkDirectoryPermissions p w)) = denied w
   \<and> loaded (snd (checkDirectoryPermissions p w)) = loaded w
   \<and> launchctl_fault (snd (checkDirectoryPermissions p w)) = launchctl_fault w
   \<and> (\<forall>q. \<not> prefix q p \<and> q \<noteq> p @ [''.write-test''] \<longrightarrow>
        node_at (snd (checkDirectoryPermissions p w)) q = node_at w q)"
proof -
  let ?t = "p @ [''.write-test'']"
  let ?m = "if \<not> existsSync w p then mkdirSync_recursive w p else Inr w"
  show ?thesis
  proof (cases ?m)
    case (Inl e)
    then show ?thesis by (simp add: checkDirectoryPermissions_def)
  next
    case (Inr w1)
    have f1: "denied w1 = denied w \<and> loaded w1 = loaded w
        \<and> launchctl_fault w1 = launchctl_fault w
        \<and> (\<forall>q. \<not> prefix q p \<longrightarrow> node_at w1 q = node_at w q)"
      using Inr mkdir_frame [of w p w1] mkdir_node_at [of w p w1]
      by (auto split: if_splits)
    show ?thesis
    proof (cases "writeFileSync w1 ?t (Raw ''test'')")
      case (Inl e)
      then show ?thesis using Inr f1 by (simp add: checkDirectoryPermissions_def Let_def)
    next
      case wr: (Inr w2)
      have f2: "denied w2 = denied w \<and> loaded w2 = loaded w
          \<and> launchctl_fault w2 = launchctl_fault w
          \<and> (\<forall>q. \<not> prefix q p \<and> q \<noteq> ?t \<longrightarrow> node_at w2 q = node_at w q)"
        using writeFileSync_frame [OF wr] f1 by simp
      show ?thesis
      proof (cases "unlinkSync w2 ?t")
        case (Inl e)
        then show ?thesis using Inr wr f2 by (simp add: checkDirectoryPermissions_def Let_def)
      next
        case un: (Inr w3)
        have "denied w3 = denied w \<and> loaded w3 = loaded w
          \<and> launchctl_fault w3 = launchctl_fault w
          \<and> (\<forall>q. \<not> prefix q p \<and> q \<noteq> ?t \<longrightarrow> node_at w3 q = node_at w q)"
          using unlinkSync_frame [OF un] f2 by simp
        then show ?thesis using Inr wr un by (simp add: checkDirectoryPermissions_def Let_def)
      qed
    qed
  qed
qed

lemma checkDirectoryPermissions_clean:
  assumes "isDir w p" and "\<not> existsSync w (p @ [''.write-test''])"
  shows "same_state w (snd (checkDirectoryPermissions p w))"
proof -
  let ?t = "p @ [''.write-test'']"
  have e: "existsSync w p" using assms(1) by (simp add: isDir_def existsSync_def)
  have n: "node_at w ?t = None" "files w ?t = None"
    using assms(2) by (auto simp: existsSync_def node_at_def)
  have d: "isDir w (dirname ?t)" using assms(1) by (simp add: dirname_def)
  show ?thesis
  proof (cases "denied w AccWrite ?t")
    case True
    then have "writeFileSync w ?t (Raw ''test'') = Inl EACCES"
      using n d by (simp add: writeFileSync_def)
    then show ?thesis using e by (simp add: checkDirectoryPermissions_def Let_def)
  next
    case False
    let ?w2 = "w\<lparr>files := (files w)(?t \<mapsto> File (Raw ''test'') 420)\<rparr>"
    have wr: "writeFileSync w ?t (Raw ''test'') = Inr ?w2"
      using n d False by (simp add: writeFileSync_def)
    have un: "unlinkSync ?w2 ?t = Inr (?w2\<lparr>files := (files ?w2)(?t := None)\<rparr>)"
      using False by (simp add: unlinkSync_def node_at_def)
    have "(files ?w2)(?t := None) = files w" using n(2) by (simp add: fun_upd_idem)
    then show ?thesis
      using e wr un by (simp add: checkDirectoryPermissions_def Let_def same_state_def)
  qed
qed

lemma checkPort_frame:
  "same_state w (snd (checkPort port w))"
  using execOutput_probe_frame [of "Lsof port" port undefined w False True]
  by (auto simp: checkPort_def split: prod.splits sum.splits)

lemma validateEnvironment_state:
  "snd (validateEnvironment E w)
     = snd (checkDirectoryPermissions (getInstallBasePath E) (snd (checkPort 8888 w)))"
  by (simp add: validateEnvironment_def Let_def case_prod_beta)

lemma validateEnvironment_frame:
  "denied (snd (validateEnvironment E w)) = denied w
   \<and> loaded (snd (validateEnvironment E w)) = loaded w
   \<and> launchctl_fault (snd (validateEnvironment E w)) = launchctl_fault w
   \<and> (\<forall>q. \<not> prefix q (getInstallBasePath E) \<and> q \<noteq> getInstallBasePath E @ [''.write-test'']
        \<longrightarrow> node_at (snd (validateEnvironment E w)) q = node_at w q)"
  using checkDirectoryPermissions_frame [of "getInstallBasePath E" "snd (checkPort 8888 w)"]
    checkPort_frame [of w 8888]
  by (simp add: validateEnvironment_state same_state_def node_at_def)

lemma validateEnvironment_clean:
  assumes "isDir w (getInstallBasePath E)"
    and "\<not> existsSync w (getInstallBasePath E @ [''.write-test''])"
  shows "same_state w (snd (validateEnvironment E w))"
proof -
  let ?w1 = "snd (checkPort 8888 w)"
  have s: "same_state w ?w1" by (rule checkPort_frame)
  then have "isDir ?w1 (getInstallBasePath E)
      \<and> \<not> existsSync ?w1 (getInstallBasePath E @ [''.write-test''])"
    using assms by (auto simp: same_state_def isDir_def existsSync_def node_at_def)
  then have "same_state ?w1 (snd (checkDirectoryPermissions (getInstallBasePath E) ?w1))"
    using checkDirectoryPermissions_clean by blast
  then show ?thesis using s same_state_trans by (simp add: validateEnvironment_state)
qed




end
